theory Spec2Isabelle
  imports Complex_Main "HOL-Library.Multiset"
begin

section \<open>JavaScript values\<close>

text \<open>
  The fields of a request body are JSON scalars, or \<open>undefined\<close> when the field is
  missing. A JavaScript number is a finite value or \<open>NaN\<close>; finite values are taken as
  exact rationals, which is how a NUMERIC column computes. The rounding of a sum or a
  difference to the nearest double, which JavaScript and a floating-point column make,
  is left out.
\<close>

datatype jsnum = Fin rat | NaN

datatype jsval = JUndefined | JNull | JBool bool | JNum jsnum | JStr string

fun num_add :: "jsnum \<Rightarrow> jsnum \<Rightarrow> jsnum" where
  "num_add (Fin a) (Fin b) = Fin (a + b)"
| "num_add _ _ = NaN"

fun num_sub :: "jsnum \<Rightarrow> jsnum \<Rightarrow> jsnum" where
  "num_sub (Fin a) (Fin b) = Fin (a - b)"
| "num_sub _ _ = NaN"

fun num_neg :: "jsnum \<Rightarrow> jsnum" where
  "num_neg (Fin a) = Fin (- a)"
| "num_neg NaN = NaN"

text \<open>Every comparison with \<open>NaN\<close> is false.\<close>

fun num_gt :: "jsnum \<Rightarrow> jsnum \<Rightarrow> bool" where
  "num_gt (Fin a) (Fin b) = (a > b)"
| "num_gt _ _ = False"

fun num_le :: "jsnum \<Rightarrow> jsnum \<Rightarrow> bool" where
  "num_le (Fin a) (Fin b) = (a \<le> b)"
| "num_le _ _ = False"

fun num_lt :: "jsnum \<Rightarrow> jsnum \<Rightarrow> bool" where
  "num_lt (Fin a) (Fin b) = (a < b)"
| "num_lt _ _ = False"

instantiation jsnum :: comm_monoid_add
begin

definition zero_jsnum_def: "0 = Fin 0"

definition plus_jsnum_def: "a + b = num_add a b"

instance
proof
  fix a b c :: jsnum
  show "a + b + c = a + (b + c)"
    by (cases a; cases b; cases c) (simp_all add: plus_jsnum_def)
  show "a + b = b + a"
    by (cases a; cases b) (simp_all add: plus_jsnum_def)
  show "0 + a = a"
    by (cases a) (simp_all add: plus_jsnum_def zero_jsnum_def)
qed

end

text \<open>\<open>!v\<close> is \<open>\<not> truthy v\<close>.\<close>

fun truthy :: "jsval \<Rightarrow> bool" where
  "truthy JUndefined = False"
| "truthy JNull = False"
| "truthy (JBool b) = b"
| "truthy (JNum (Fin r)) = (r \<noteq> 0)"
| "truthy (JNum NaN) = False"
| "truthy (JStr s) = (s \<noteq> [])"

fun typeof :: "jsval \<Rightarrow> string" where
  "typeof JUndefined = ''undefined''"
| "typeof JNull = ''object''"
| "typeof (JBool _) = ''boolean''"
| "typeof (JNum _) = ''number''"
| "typeof (JStr _) = ''string''"

text \<open>
  \<open>Number(v)\<close>. What it gives on a string is the runtime's StringToNumber, which is a
  parameter \<open>strnum\<close> of everything that converts.
\<close>

fun Number :: "(string \<Rightarrow> jsnum) \<Rightarrow> jsval \<Rightarrow> jsnum" where
  "Number strnum JUndefined = NaN"
| "Number strnum JNull = Fin 0"
| "Number strnum (JBool b) = (if b then Fin 1 else Fin 0)"
| "Number strnum (JNum n) = n"
| "Number strnum (JStr s) = strnum s"

text \<open>The number held by a value whose \<open>typeof\<close> is \<open>number\<close>, the string of a string.\<close>

fun num_of :: "jsval \<Rightarrow> jsnum" where
  "num_of (JNum n) = n"
| "num_of _ = NaN"

fun str_of :: "jsval \<Rightarrow> string" where
  "str_of (JStr s) = s"
| "str_of _ = []"

section \<open>The database\<close>

text \<open>
  \<open>new Error(message)\<close> thrown by the code, and the errors the driver raises when a
  statement fails.
\<close>

datatype error = Error string | PgError string

text \<open>
  A transaction id is the caller's value or a generated one (the column default or
  \<open>uuidv4()\<close>); generated ids are distinct from every supplied one. A timestamp is an
  instant, counted from some epoch.
\<close>

datatype txid = Supplied jsval | Generated nat

record txrow =
  transaction_id :: txid
  user_id :: jsval
  amount :: jsnum
  tx_type :: string
  timestamp :: nat

text \<open>
  The type of the column \<open>users.balance\<close> is not in the sources. The driver hands a
  value of a floating-point column to the code as a number, and a value of a NUMERIC
  column as a string; then \<open>newBalance += amount\<close> appends the text of the amount to the
  text of the balance (\<open>'50' + 25\<close> is \<open>'5025'\<close>), and the UPDATE reads that text as a
  value of the column, or refuses it. For a NUMERIC column the function given says what
  the column holds after that, \<open>None\<close> when the text is refused.
\<close>

datatype balance_column = DoublePrecision | Numeric "jsnum \<Rightarrow> jsnum \<Rightarrow> jsnum option"

record database =
  transactions :: "txrow list"
  users :: "jsval \<rightharpoonup> jsnum"
  balance_column :: balance_column

datatype event = Event (ev_name: string) (ev_payload: txrow) (ev_occurredAt: "nat option")

text \<open>
  The world a call runs in: the committed data \<open>store\<close>, which is what every
  \<open>pool.query\<close> reads; the open unit of the checked-out client (\<open>txn\<close>, \<open>None\<close> outside
  BEGIN .. COMMIT); the outcomes injected for the statements to come (\<open>faults\<close>: each
  statement takes the head, \<open>Some e\<close> makes it fail with \<open>e\<close> and without effect, so
  that an open unit stays open); the clock and the id generator; the log; and the
  events the simulated publisher keeps. The client that a call checks out of the pool is
  the one the call before has released.
\<close>

record world =
  store :: database
  txn :: "database option"
  faults :: "error option list"
  clock :: nat
  idgen :: nat
  log :: "(string \<times> string) list"
  published :: "event list"

definition next_fault :: "world \<Rightarrow> error option \<times> world" where
  "next_fault w = (case faults w of [] \<Rightarrow> (None, w) | f # fs \<Rightarrow> (f, w\<lparr>faults := fs\<rparr>))"

text \<open>The data a statement of the client sees and changes: the open unit if there is one.\<close>

definition view :: "world \<Rightarrow> database" where
  "view w = (case txn w of Some d \<Rightarrow> d | None \<Rightarrow> store w)"

definition set_view :: "database \<Rightarrow> world \<Rightarrow> world" where
  "set_view d w = (case txn w of Some _ \<Rightarrow> w\<lparr>txn := Some d\<rparr> | None \<Rightarrow> w\<lparr>store := d\<rparr>)"

text \<open>\<open>client.query(stmt)\<close>: the statement runs on the client's view, unless it fails.\<close>

definition client_query ::
  "(database \<Rightarrow> error + ('a \<times> database)) \<Rightarrow> world \<Rightarrow> (error + 'a) \<times> world" where
  "client_query stmt w =
     (case next_fault w of
        (Some e, w') \<Rightarrow> (Inl e, w')
      | (None, w') \<Rightarrow>
          (case stmt (view w') of
             Inl e \<Rightarrow> (Inl e, w')
           | Inr (r, d) \<Rightarrow> (Inr r, set_view d w')))"

text \<open>
  BEGIN opens a unit on the committed data. On a client that has a unit open already it
  only warns, and the open unit goes on.
\<close>

definition client_BEGIN :: "world \<Rightarrow> (error + unit) \<times> world" where
  "client_BEGIN w =
     (case next_fault w of
        (Some e, w') \<Rightarrow> (Inl e, w')
      | (None, w') \<Rightarrow>
          (case txn w' of
             None \<Rightarrow> (Inr (), w'\<lparr>txn := Some (store w')\<rparr>)
           | Some _ \<Rightarrow> (Inr (), w')))"

definition client_COMMIT :: "world \<Rightarrow> (error + unit) \<times> world" where
  "client_COMMIT w =
     (case next_fault w of
        (Some e, w') \<Rightarrow> (Inl e, w')
      | (None, w') \<Rightarrow> (Inr (), w'\<lparr>store := view w', txn := None\<rparr>))"

text \<open>
  ROLLBACK discards the open unit. A ROLLBACK that fails has, like every statement that
  fails, no effect: the unit stays open on the client, which the code releases to the
  pool as it is.
\<close>

definition client_ROLLBACK :: "world \<Rightarrow> (error + unit) \<times> world" where
  "client_ROLLBACK w =
     (case next_fault w of
        (Some e, w') \<Rightarrow> (Inl e, w')
      | (None, w') \<Rightarrow> (Inr (), w'\<lparr>txn := None\<rparr>))"

text \<open>
  \<open>pool.query(select)\<close>: a read of the committed data on a connection of its own; the
  server may refuse the statement.
\<close>

definition pool_query :: "(database \<Rightarrow> error + 'a) \<Rightarrow> world \<Rightarrow> (error + 'a) \<times> world" where
  "pool_query sel w =
     (case next_fault w of
        (Some e, w') \<Rightarrow> (Inl e, w')
      | (None, w') \<Rightarrow> (sel (store w'), w'))"

subsection \<open>The SQL statements\<close>

definition where_user_id :: "jsval \<Rightarrow> txrow list \<Rightarrow> txrow list" where
  "where_user_id uid rs = filter (\<lambda>r. user_id r = uid) rs"

text \<open>ORDER BY timestamp DESC.\<close>

definition order_by_timestamp_desc :: "txrow list \<Rightarrow> txrow list" where
  "order_by_timestamp_desc rs = rev (sort_key timestamp rs)"

text \<open>CASE WHEN type='deposit' THEN amount WHEN type='withdraw' THEN -amount ELSE 0 END.\<close>

definition signed_amount :: "txrow \<Rightarrow> jsnum" where
  "signed_amount r =
     (if tx_type r = ''deposit'' then amount r
      else if tx_type r = ''withdraw'' then num_neg (amount r)
      else 0)"

text \<open>SUM is NULL over no rows.\<close>

definition sql_SUM :: "jsnum list \<Rightarrow> jsnum option" where
  "sql_SUM xs = (if xs = [] then None else Some (sum_list xs))"

definition sql_COALESCE :: "'a option \<Rightarrow> 'a \<Rightarrow> 'a" where
  "sql_COALESCE v d = (case v of None \<Rightarrow> d | Some x \<Rightarrow> x)"

text \<open>
  LIMIT $n, with the parameter \<open>null\<close> (\<open>None\<close>) or a number. LIMIT NULL is no
  limit. The driver sends a number as its text, and the server reads the text as a
  bigint: it refuses a number that is not an integer, or that JavaScript writes with an
  exponent (from \<open>1e21\<close> on), one that is not in the range of a bigint, and a negative
  one.
\<close>

definition sql_LIMIT :: "jsnum option \<Rightarrow> 'a list \<Rightarrow> error + 'a list" where
  "sql_LIMIT n rows =
     (case n of
        None \<Rightarrow> Inr rows
      | Some NaN \<Rightarrow> Inl (PgError ''invalid input syntax for type bigint'')
      | Some (Fin r) \<Rightarrow>
          if of_int \<lfloor>r\<rfloor> \<noteq> r \<or> 10 ^ 21 \<le> \<bar>r\<bar>
            then Inl (PgError ''invalid input syntax for type bigint'')
          else if r < - (2 ^ 63) \<or> 2 ^ 63 \<le> r
            then Inl (PgError ''value is out of range for type bigint'')
          else if r < 0 then Inl (PgError ''LIMIT must not be negative'')
          else Inr (take (nat \<lfloor>r\<rfloor>) rows))"

text \<open>SELECT balance FROM users WHERE user_id = $1: the rows.\<close>

definition select_balance :: "jsval \<Rightarrow> database \<Rightarrow> jsnum list" where
  "select_balance uid d = (case users d uid of None \<Rightarrow> [] | Some b \<Rightarrow> [b])"

definition insert_row :: "txrow \<Rightarrow> database \<Rightarrow> database" where
  "insert_row r d = d\<lparr>transactions := transactions d @ [r]\<rparr>"

text \<open>UPDATE users SET balance = f(balance) WHERE the key is uid: no row, no change.\<close>

definition update_balance :: "jsval \<Rightarrow> (jsnum \<Rightarrow> jsnum) \<Rightarrow> database \<Rightarrow> database" where
  "update_balance uid f d =
     (case users d uid of
        None \<Rightarrow> d
      | Some b \<Rightarrow> d\<lparr>users := (users d)(uid \<mapsto> f b)\<rparr>)"

section \<open>Clock, id generator, logger, event publisher\<close>

text \<open>\<open>new Date()\<close> and the timestamp default: every reading is later than the one before.\<close>

definition new_Date :: "world \<Rightarrow> nat \<times> world" where
  "new_Date w = (clock w, w\<lparr>clock := Suc (clock w)\<rparr>)"

definition uuidv4 :: "world \<Rightarrow> txid \<times> world" where
  "uuidv4 w = (Generated (idgen w), w\<lparr>idgen := Suc (idgen w)\<rparr>)"

definition logInfo :: "string \<Rightarrow> world \<Rightarrow> world" where
  "logInfo message w = w\<lparr>log := log w @ [(''INFO'', message)]\<rparr>"

definition logError :: "string \<Rightarrow> world \<Rightarrow> world" where
  "logError message w = w\<lparr>log := log w @ [(''ERROR'', message)]\<rparr>"

text \<open>
  What a call of \<open>publish\<close> does to its caller: it returns, it throws, or it returns a
  promise that rejects. A publisher is injected; it can write to the log and to its own
  memory of events, and to nothing else.
\<close>

datatype pub_outcome = Returned | Threw error | Rejected error

type_synonym publisher =
  "event \<Rightarrow> (string \<times> string) list \<times> event list
     \<Rightarrow> pub_outcome \<times> ((string \<times> string) list \<times> event list)"

definition publish_with :: "publisher \<Rightarrow> event \<Rightarrow> world \<Rightarrow> pub_outcome \<times> world" where
  "publish_with pub ev w =
     (case pub ev (log w, published w) of
        (r, (l, p)) \<Rightarrow> (r, w\<lparr>log := l, published := p\<rparr>))"

text \<open>EventPublisherMock.publish: a line on the console.\<close>

definition EventPublisherMock_publish :: publisher where
  "EventPublisherMock_publish ev s =
     (case s of (l, p) \<Rightarrow> (Returned, (l @ [(''console'', ''Event published (mock):'')], p)))"

text \<open>EventPublisherSimulator.publish: logs the event and keeps it in memory.\<close>

definition EventPublisherSimulator_publish :: publisher where
  "EventPublisherSimulator_publish ev s =
     (case s of (l, p) \<Rightarrow> (Returned, (l @ [(''info'', ''event_published'')], p @ [ev])))"

section \<open>PostgresRepository\<close>

text \<open>
  The object passed to \<open>processTransaction\<close> and on to \<open>saveTransaction\<close>. Both read
  \<open>userId\<close>, \<open>amount\<close> and \<open>type\<close> only; \<open>td_id\<close> is an id the caller may have put in
  the object.
\<close>

record transactionData =
  td_userId :: jsval
  td_amount :: jsval
  td_type :: jsval
  td_id :: jsval

text \<open>
  INSERT INTO transactions (user_id, amount, type) VALUES ($1, $2, $3) RETURNING *:
  the id and the timestamp of the row are the column defaults.
\<close>

definition client_INSERT_defaults ::
  "jsval \<Rightarrow> jsnum \<Rightarrow> string \<Rightarrow> world \<Rightarrow> (error + txrow) \<times> world" where
  "client_INSERT_defaults uid amt ty w =
     (let row = \<lparr>transaction_id = Generated (idgen w), user_id = uid, amount = amt,
                 tx_type = ty, timestamp = clock w\<rparr>
      in case client_query (\<lambda>d. Inr (row, insert_row row d)) w of
           (Inl e, w') \<Rightarrow> (Inl e, w')
         | (Inr r, w') \<Rightarrow> (Inr r, w'\<lparr>clock := Suc (clock w'), idgen := Suc (idgen w')\<rparr>))"

text \<open>
  \<open>newBalance += amount\<close> on the balance the driver returned, as the parameter \<open>$1\<close> of
  the UPDATE: \<open>Some\<close> the value the column gets, \<open>None\<close> a text the server refuses.
\<close>

definition plus_assign :: "balance_column \<Rightarrow> jsnum \<Rightarrow> jsnum \<Rightarrow> jsnum option" where
  "plus_assign col balance amt =
     (case col of
        DoublePrecision \<Rightarrow> Some (num_add balance amt)
      | Numeric append_text \<Rightarrow> append_text balance amt)"

text \<open>
  The lines of \<open>saveTransaction\<close> between the SELECT and the INSERT, on the balance read:
  the error thrown, or \<open>newBalance\<close>. In \<open>amount > newBalance\<close> and in
  \<open>newBalance -= amount\<close> a balance that is a string is converted to its number.
\<close>

definition newBalance_of ::
  "balance_column \<Rightarrow> string \<Rightarrow> jsnum \<Rightarrow> jsnum \<Rightarrow> error + jsnum option" where
  "newBalance_of col ty balance amt =
     (if ty = ''deposit'' then Inr (plus_assign col balance amt)
      else if ty = ''withdraw'' then
        (if num_gt amt balance then Inl (Error ''Insufficient balance'')
         else Inr (Some (num_sub balance amt)))
      else Inl (Error ''Invalid transaction type''))"

text \<open>UPDATE users SET balance=$1 WHERE user_id=$2.\<close>

definition update_balance_to ::
  "jsnum option \<Rightarrow> jsval \<Rightarrow> database \<Rightarrow> error + (unit \<times> database)" where
  "update_balance_to newBalance uid d =
     (case newBalance of
        None \<Rightarrow> Inl (PgError ''invalid input syntax for type numeric'')
      | Some b \<Rightarrow> Inr ((), update_balance uid (\<lambda>_. b) d))"

text \<open>
  The \<open>try\<close> block of \<open>saveTransaction\<close>. The parameters are a number and a string, as
  documented; a \<open>type\<close> that is not a string is neither \<open>deposit\<close> nor \<open>withdraw\<close>.
\<close>

definition PostgresRepository_saveTransaction_try ::
  "transactionData \<Rightarrow> world \<Rightarrow> (error + txrow) \<times> world" where
  "PostgresRepository_saveTransaction_try td w =
     (let userId = td_userId td; amt = num_of (td_amount td); ty = str_of (td_type td) in
      case client_BEGIN w of
        (Inl e, w1) \<Rightarrow> (Inl e, w1)
      | (Inr _, w1) \<Rightarrow>
      (case client_query (\<lambda>d. Inr (select_balance userId d, d)) w1 of
        (Inl e, w2) \<Rightarrow> (Inl e, w2)
      | (Inr userRes, w2) \<Rightarrow>
      (case userRes of
        [] \<Rightarrow> (Inl (Error ''User not found''), w2)
      | balance # _ \<Rightarrow>
      (case newBalance_of (balance_column (view w2)) ty balance amt of
        Inl e \<Rightarrow> (Inl e, w2)
      | Inr newBalance \<Rightarrow>
      (case client_INSERT_defaults userId amt ty w2 of
        (Inl e, w3) \<Rightarrow> (Inl e, w3)
      | (Inr txRes, w3) \<Rightarrow>
      (case client_query (update_balance_to newBalance userId) w3 of
        (Inl e, w4) \<Rightarrow> (Inl e, w4)
      | (Inr _, w4) \<Rightarrow>
      (case client_COMMIT w4 of
        (Inl e, w5) \<Rightarrow> (Inl e, w5)
      | (Inr _, w5) \<Rightarrow> (Inr txRes, w5))))))))"

text \<open>\<open>catch (err) { await client.query("ROLLBACK"); throw err; }\<close>\<close>

definition catch_ROLLBACK :: "error \<Rightarrow> world \<Rightarrow> (error + 'a) \<times> world" where
  "catch_ROLLBACK err w =
     (case client_ROLLBACK w of
        (Inl e, w') \<Rightarrow> (Inl e, w')
      | (Inr _, w') \<Rightarrow> (Inl err, w'))"

definition PostgresRepository_saveTransaction ::
  "transactionData \<Rightarrow> world \<Rightarrow> (error + txrow) \<times> world" where
  "PostgresRepository_saveTransaction td w =
     (case PostgresRepository_saveTransaction_try td w of
        (Inr row, w') \<Rightarrow> (Inr row, w')
      | (Inl err, w') \<Rightarrow> catch_ROLLBACK err w')"

definition PostgresRepository_getUserTransactions ::
  "jsval \<Rightarrow> world \<Rightarrow> (error + txrow list) \<times> world" where
  "PostgresRepository_getUserTransactions userId w =
     pool_query (\<lambda>d. Inr (order_by_timestamp_desc (where_user_id userId (transactions d)))) w"

definition PostgresRepository_getUserBalance ::
  "jsval \<Rightarrow> world \<Rightarrow> (error + jsnum) \<times> world" where
  "PostgresRepository_getUserBalance userId w =
     pool_query (\<lambda>d. Inr (sql_COALESCE
        (sql_SUM (map signed_amount (where_user_id userId (transactions d)))) (Fin 0))) w"

section \<open>Two calls of \<open>PostgresRepository.saveTransaction\<close> in progress at once\<close>

text \<open>
  Every call of \<open>saveTransaction\<close> checks a client of its own out of the pool, so two
  calls in progress at once run their statements in two sessions of the server,
  interleaved in whatever order their awaits resolve. The code sets no isolation level
  and takes no lock: the SELECT of the balance has no FOR UPDATE. So the sessions run
  at the default level of the server, READ COMMITTED: a statement sees the data
  committed when it starts, and the writes of its own unit; the writes of a unit reach
  the committed data at its COMMIT; an UPDATE of a row that the open unit of the other
  session has updated waits until that unit has ended.
\<close>

datatype pending = InsertRow txrow | SetBalance jsval jsnum

fun apply_write :: "pending \<Rightarrow> database \<Rightarrow> database" where
  "apply_write (InsertRow r) d = insert_row r d"
| "apply_write (SetBalance uid b) d = update_balance uid (\<lambda>_. b) d"

text \<open>The rows of \<open>users\<close> that a unit has updated, and keeps locked until it ends.\<close>

fun locked_rows :: "pending list \<Rightarrow> jsval list" where
  "locked_rows [] = []"
| "locked_rows (InsertRow r # ws) = locked_rows ws"
| "locked_rows (SetBalance uid b # ws) = uid # locked_rows ws"

text \<open>
  Where a call stands: the statement it awaits next, with the values of \<open>newBalance\<close>
  and \<open>txRes.rows[0]\<close> it holds by then, or how it has ended.
\<close>

datatype progress =
    AwaitBEGIN
  | AwaitSELECT
  | AwaitINSERT "jsnum option"
  | AwaitUPDATE "jsnum option" txrow
  | AwaitCOMMIT txrow
  | AwaitROLLBACK error
  | Resolved txrow
  | Thrown error

text \<open>A call in progress: its argument, where it stands, and the writes of its open unit.\<close>

record session =
  args :: transactionData
  progress :: progress
  unit_writes :: "pending list"

definition new_session :: "transactionData \<Rightarrow> session" where
  "new_session td = \<lparr>args = td, progress = AwaitBEGIN, unit_writes = []\<rparr>"

text \<open>
  The next statement of a call, and the synchronous code up to the following
  \<open>await\<close>. The committed data, the clock and the id generator are those of the world
  \<open>w\<close>, shared with the other call \<open>other\<close>; no failure is injected.
\<close>

definition session_step :: "session \<Rightarrow> session \<Rightarrow> world \<Rightarrow> session \<times> world" where
  "session_step c other w =
     (let userId = td_userId (args c); amt = num_of (td_amount (args c));
          ty = str_of (td_type (args c));
          d = fold apply_write (unit_writes c) (store w) in
      case progress c of
        AwaitBEGIN \<Rightarrow> (c\<lparr>progress := AwaitSELECT\<rparr>, w)
      | AwaitSELECT \<Rightarrow>
          (case select_balance userId d of
             [] \<Rightarrow> (c\<lparr>progress := AwaitROLLBACK (Error ''User not found'')\<rparr>, w)
           | balance # _ \<Rightarrow>
               (case newBalance_of (balance_column d) ty balance amt of
                  Inl e \<Rightarrow> (c\<lparr>progress := AwaitROLLBACK e\<rparr>, w)
                | Inr newBalance \<Rightarrow> (c\<lparr>progress := AwaitINSERT newBalance\<rparr>, w)))
      | AwaitINSERT newBalance \<Rightarrow>
          (let row = \<lparr>transaction_id = Generated (idgen w), user_id = userId, amount = amt,
                      tx_type = ty, timestamp = clock w\<rparr>
           in (c\<lparr>progress := AwaitUPDATE newBalance row,
                  unit_writes := unit_writes c @ [InsertRow row]\<rparr>,
               w\<lparr>clock := Suc (clock w), idgen := Suc (idgen w)\<rparr>))
      | AwaitUPDATE newBalance row \<Rightarrow>
          if userId \<in> set (locked_rows (unit_writes other)) then (c, w)
          else
            (case newBalance of
               None \<Rightarrow>
                 (c\<lparr>progress :=
                      AwaitROLLBACK (PgError ''invalid input syntax for type numeric'')\<rparr>, w)
             | Some b \<Rightarrow>
                 (c\<lparr>progress := AwaitCOMMIT row,
                    unit_writes := unit_writes c @ [SetBalance userId b]\<rparr>, w))
      | AwaitCOMMIT row \<Rightarrow> (c\<lparr>progress := Resolved row, unit_writes := []\<rparr>, w\<lparr>store := d\<rparr>)
      | AwaitROLLBACK e \<Rightarrow> (c\<lparr>progress := Thrown e, unit_writes := []\<rparr>, w)
      | Resolved row \<Rightarrow> (c, w)
      | Thrown e \<Rightarrow> (c, w))"

text \<open>
  Two calls and the world they share. A schedule says whose statement runs next; a call
  that has ended, or waits for a lock, stays where it is.
\<close>

datatype caller = First | Second

record sessions =
  first :: session
  second :: session
  shared :: world

definition sessions_step :: "caller \<Rightarrow> sessions \<Rightarrow> sessions" where
  "sessions_step who s =
     (case who of
        First \<Rightarrow>
          (case session_step (first s) (second s) (shared s) of
             (c, w) \<Rightarrow> s\<lparr>first := c, shared := w\<rparr>)
      | Second \<Rightarrow>
          (case session_step (second s) (first s) (shared s) of
             (c, w) \<Rightarrow> s\<lparr>second := c, shared := w\<rparr>))"

definition sessions_run :: "caller list \<Rightarrow> sessions \<Rightarrow> sessions" where
  "sessions_run schedule s = fold sessions_step schedule s"

definition two_calls :: "transactionData \<Rightarrow> transactionData \<Rightarrow> world \<Rightarrow> sessions" where
  "two_calls td1 td2 w = \<lparr>first = new_session td1, second = new_session td2, shared = w\<rparr>"

section \<open>TransactionService\<close>

text \<open>The repository injected into the service.\<close>

record repository =
  repo_saveTransaction :: "transactionData \<Rightarrow> world \<Rightarrow> (error + txrow) \<times> world"
  repo_getUserTransactions :: "jsval \<Rightarrow> world \<Rightarrow> (error + txrow list) \<times> world"
  repo_getUserBalance :: "jsval \<Rightarrow> world \<Rightarrow> (error + jsnum) \<times> world"

definition PostgresRepository :: repository where
  "PostgresRepository =
     \<lparr>repo_saveTransaction = PostgresRepository_saveTransaction,
      repo_getUserTransactions = PostgresRepository_getUserTransactions,
      repo_getUserBalance = PostgresRepository_getUserBalance\<rparr>"

definition type_message :: string where
  "type_message = ''Type must be either 'deposit' or 'withdraw'' @ [CHR 0x27]"

text \<open>The \<open>try\<close> block of \<open>processTransaction\<close>, entered once the input is valid.\<close>

definition TransactionService_processTransaction_try ::
  "repository \<Rightarrow> publisher option \<Rightarrow> transactionData \<Rightarrow> world \<Rightarrow> (error + txrow) \<times> world" where
  "TransactionService_processTransaction_try repository eventPublisher td w =
     (let userId = td_userId td; amt = num_of (td_amount td) in
      case (if td_type td = JStr ''withdraw'' then
              (case repo_getUserBalance repository userId w of
                 (Inl e, w1) \<Rightarrow> (Inl e, w1)
               | (Inr currentBalance, w1) \<Rightarrow>
                   if num_gt amt currentBalance
                   then (Inl (Error ''Insufficient balance''),
                         logError ''Insufficient balance for withdrawal'' w1)
                   else (Inr (), w1))
            else (Inr (), w)) of
        (Inl e, w1) \<Rightarrow> (Inl e, w1)
      | (Inr _, w1) \<Rightarrow>
      (case repo_saveTransaction repository td w1 of
        (Inl e, w2) \<Rightarrow> (Inl e, w2)
      | (Inr savedTransaction, w2) \<Rightarrow>
      (case eventPublisher of
        None \<Rightarrow> (Inr savedTransaction, w2)
      | Some pub \<Rightarrow>
      (case publish_with pub (Event ''TRANSACTION_PROCESSED'' savedTransaction None) w2 of
        (Returned, w3) \<Rightarrow> (Inr savedTransaction, logInfo ''Event published (mock)'' w3)
      | (Threw e, w3) \<Rightarrow> (Inl e, w3)
      | (Rejected e, w3) \<Rightarrow> (Inl e, w3)))))"

definition TransactionService_processTransaction ::
  "repository \<Rightarrow> publisher option \<Rightarrow> transactionData \<Rightarrow> world \<Rightarrow> (error + txrow) \<times> world" where
  "TransactionService_processTransaction repository eventPublisher td w =
     (if \<not> truthy (td_userId td) \<or> typeof (td_userId td) \<noteq> ''string'' then
        (Inl (Error ''Invalid or missing userId''), logError ''Invalid or missing userId'' w)
      else if typeof (td_amount td) \<noteq> ''number'' \<or> num_le (num_of (td_amount td)) (Fin 0) then
        (Inl (Error ''Amount must be a positive number''), logError ''Amount must be positive'' w)
      else if td_type td \<notin> set [JStr ''deposit'', JStr ''withdraw''] then
        (Inl (Error type_message), logError ''Invalid transaction type'' w)
      else
        (case TransactionService_processTransaction_try repository eventPublisher td
                (logInfo ''Processing transaction'' w) of
           (Inr savedTransaction, w') \<Rightarrow> (Inr savedTransaction, w')
         | (Inl err, w') \<Rightarrow> (Inl err, logError ''Error processing transaction'' w')))"

definition TransactionService_getUserTransactions ::
  "repository \<Rightarrow> jsval \<Rightarrow> world \<Rightarrow> (error + txrow list) \<times> world" where
  "TransactionService_getUserTransactions repository userId w =
     (if \<not> truthy userId then
        (Inl (Error ''UserId is required''), logError ''UserId required for getUserTransactions'' w)
      else repo_getUserTransactions repository userId w)"

definition TransactionService_getUserBalance ::
  "repository \<Rightarrow> jsval \<Rightarrow> world \<Rightarrow> (error + jsnum) \<times> world" where
  "TransactionService_getUserBalance repository userId w =
     (if \<not> truthy userId then
        (Inl (Error ''UserId is required''), logError ''UserId required for getUserBalance'' w)
      else repo_getUserBalance repository userId w)"

section \<open>PgTransactionWriteRepositoryAdapter and PgTransactionReadRepositoryAdapter\<close>

text \<open>
  Modelled from the spec: the primary key of the transactions table
  (\<open>transactions(id PK, userId, amount, type, timestamp)\<close>); the definition of the table
  is not among the sources. An INSERT of a row whose \<open>transaction_id\<close> is already in
  the table fails with the driver's duplicate-key error.
\<close>

definition insert_row_pk :: "txrow \<Rightarrow> database \<Rightarrow> error + (unit \<times> database)" where
  "insert_row_pk r d =
     (if transaction_id r \<in> set (map transaction_id (transactions d))
      then Inl (PgError ''duplicate key value violates unique constraint'')
      else Inr ((), insert_row r d))"

text \<open>The \<open>try\<close> block of \<open>saveTransaction(tx)\<close>; the object has the fields of a row.\<close>

definition PgTransactionWriteRepositoryAdapter_saveTransaction_try ::
  "txrow \<Rightarrow> world \<Rightarrow> (error + unit) \<times> world" where
  "PgTransactionWriteRepositoryAdapter_saveTransaction_try tx w =
     (case client_BEGIN w of
        (Inl e, w1) \<Rightarrow> (Inl e, w1)
      | (Inr _, w1) \<Rightarrow>
      (case client_query (insert_row_pk tx) w1 of
        (Inl e, w2) \<Rightarrow> (Inl e, w2)
      | (Inr _, w2) \<Rightarrow>
      (case (if tx_type tx = ''deposit''
             then client_query
                    (\<lambda>d. Inr ((), update_balance (user_id tx) (\<lambda>b. num_add b (amount tx)) d)) w2
             else client_query
                    (\<lambda>d. Inr ((), update_balance (user_id tx) (\<lambda>b. num_sub b (amount tx)) d)) w2) of
        (Inl e, w3) \<Rightarrow> (Inl e, w3)
      | (Inr _, w3) \<Rightarrow> client_COMMIT w3)))"

definition PgTransactionWriteRepositoryAdapter_saveTransaction ::
  "txrow \<Rightarrow> world \<Rightarrow> (error + unit) \<times> world" where
  "PgTransactionWriteRepositoryAdapter_saveTransaction tx w =
     (case PgTransactionWriteRepositoryAdapter_saveTransaction_try tx w of
        (Inr u, w') \<Rightarrow> (Inr u, w')
      | (Inl err, w') \<Rightarrow> catch_ROLLBACK err w')"

text \<open>
  The argument \<open>limit\<close> of \<open>getTransactionsByUser\<close>: left out (or \<open>undefined\<close>),
  \<open>null\<close>, or a number, which is its documented type.
\<close>

datatype limit_arg = LimitOmitted | LimitNull | LimitNumber jsnum

text \<open>The default of the parameter: \<open>limit = 100\<close> applies when the argument is left out.\<close>

definition limit_parameter :: "limit_arg \<Rightarrow> jsnum option" where
  "limit_parameter limit =
     (case limit of
        LimitOmitted \<Rightarrow> Some (Fin 100)
      | LimitNull \<Rightarrow> None
      | LimitNumber n \<Rightarrow> Some n)"

text \<open>\<open>getTransactionsByUser(userId, limit = 100)\<close>.\<close>

definition PgTransactionReadRepositoryAdapter_getTransactionsByUser ::
  "jsval \<Rightarrow> limit_arg \<Rightarrow> world \<Rightarrow> (error + txrow list) \<times> world" where
  "PgTransactionReadRepositoryAdapter_getTransactionsByUser userId limit w =
     pool_query (\<lambda>d. sql_LIMIT (limit_parameter limit)
                        (order_by_timestamp_desc (where_user_id userId (transactions d)))) w"

text \<open>\<open>getBalanceByUser(userId)\<close>; \<open>None\<close> is \<open>null\<close>.\<close>

definition PgTransactionReadRepositoryAdapter_getBalanceByUser ::
  "jsval \<Rightarrow> world \<Rightarrow> (error + jsnum option) \<times> world" where
  "PgTransactionReadRepositoryAdapter_getBalanceByUser userId w =
     (case pool_query (\<lambda>d. Inr (select_balance userId d)) w of
        (Inl e, w') \<Rightarrow> (Inl e, w')
      | (Inr rows, w') \<Rightarrow> (Inr (case rows of [] \<Rightarrow> None | b # _ \<Rightarrow> Some b), w'))"

section \<open>CreateTransactionService\<close>

text \<open>
  The command of \<open>execute\<close>. A \<open>timestamp\<close> is \<open>None\<close> when the caller gives none, or
  the instant its ISO string denotes.
\<close>

record command =
  c_user_id :: jsval
  c_amount :: jsval
  c_type :: jsval
  c_transaction_id :: jsval
  c_timestamp :: "nat option"

definition logger_info :: "string \<Rightarrow> world \<Rightarrow> world" where
  "logger_info message w = w\<lparr>log := log w @ [(''info'', message)]\<rparr>"

text \<open>The checks at the head of \<open>execute\<close>: the error of the first one that fails.\<close>

definition CreateTransactionService_validate :: "(string \<Rightarrow> jsnum) \<Rightarrow> command \<Rightarrow> error option" where
  "CreateTransactionService_validate strnum command =
     (if \<not> truthy (c_user_id command) then Some (Error ''user_id required'')
      else if \<not> truthy (c_amount command) \<or> num_le (Number strnum (c_amount command)) (Fin 0)
        then Some (Error ''amount must be positive'')
      else if c_type command \<notin> set [JStr ''deposit'', JStr ''withdraw'']
        then Some (Error ''invalid type'')
      else None)"

text \<open>The object \<open>tx\<close> that \<open>execute\<close> builds from a valid command.\<close>

definition CreateTransactionService_build_tx ::
  "(string \<Rightarrow> jsnum) \<Rightarrow> command \<Rightarrow> world \<Rightarrow> txrow \<times> world" where
  "CreateTransactionService_build_tx strnum command w =
     (case (if truthy (c_transaction_id command)
            then (Supplied (c_transaction_id command), w) else uuidv4 w) of
        (tid, w1) \<Rightarrow>
     (case (case c_timestamp command of Some t \<Rightarrow> (t, w1) | None \<Rightarrow> new_Date w1) of
        (ts, w2) \<Rightarrow>
          (\<lparr>transaction_id = tid, user_id = c_user_id command,
            amount = Number strnum (c_amount command),
            tx_type = str_of (c_type command), timestamp = ts\<rparr>, w2)))"

text \<open>
  The end of \<open>execute\<close>, after the write: the event, the log line and the result. The
  call of \<open>publish\<close> is not awaited: a publisher that throws makes \<open>execute\<close> fail, a
  promise that rejects is dropped.
\<close>

definition CreateTransactionService_notify ::
  "publisher \<Rightarrow> txrow \<Rightarrow> world \<Rightarrow> (error + txrow) \<times> world" where
  "CreateTransactionService_notify eventPublisher tx w =
     (case new_Date w of
        (now, w1) \<Rightarrow>
     (case publish_with eventPublisher (Event ''TransactionCreated'' tx (Some now)) w1 of
        (Threw e, w2) \<Rightarrow> (Inl e, w2)
      | (_, w2) \<Rightarrow> (Inr tx, logger_info ''transaction_created'' w2)))"

text \<open>\<open>execute(command)\<close>, with the injected write repository and publisher.\<close>

definition CreateTransactionService_execute ::
  "(string \<Rightarrow> jsnum) \<Rightarrow> (txrow \<Rightarrow> world \<Rightarrow> (error + unit) \<times> world) \<Rightarrow> publisher
     \<Rightarrow> command \<Rightarrow> world \<Rightarrow> (error + txrow) \<times> world" where
  "CreateTransactionService_execute strnum writeRepo_saveTransaction eventPublisher command w =
     (case CreateTransactionService_validate strnum command of
        Some e \<Rightarrow> (Inl e, w)
      | None \<Rightarrow>
     (case CreateTransactionService_build_tx strnum command w of
        (tx, w1) \<Rightarrow>
     (case writeRepo_saveTransaction tx w1 of
        (Inl e, w2) \<Rightarrow> (Inl e, w2)
      | (Inr _, w2) \<Rightarrow> CreateTransactionService_notify eventPublisher tx w2)))"

section \<open>Sequences of calls and ledgers to start from\<close>

text \<open>A sequence of calls of which every one succeeds; \<open>None\<close> if one fails.\<close>

fun processTransaction_all ::
  "repository \<Rightarrow> publisher option \<Rightarrow> transactionData list \<Rightarrow> world \<Rightarrow> world option" where
  "processTransaction_all repository eventPublisher [] w = Some w"
| "processTransaction_all repository eventPublisher (td # tds) w =
     (case TransactionService_processTransaction repository eventPublisher td w of
        (Inr _, w') \<Rightarrow> processTransaction_all repository eventPublisher tds w'
      | (Inl _, _) \<Rightarrow> None)"

fun execute_all ::
  "(string \<Rightarrow> jsnum) \<Rightarrow> publisher \<Rightarrow> command list \<Rightarrow> world \<Rightarrow> world option" where
  "execute_all strnum eventPublisher [] w = Some w"
| "execute_all strnum eventPublisher (c # cs) w =
     (case CreateTransactionService_execute strnum
             PgTransactionWriteRepositoryAdapter_saveTransaction eventPublisher c w of
        (Inr _, w') \<Rightarrow> execute_all strnum eventPublisher cs w'
      | (Inl _, _) \<Rightarrow> None)"

text \<open>A sequence of calls of \<open>execute\<close>, whatever their outcomes: the world they leave.\<close>

fun execute_each ::
  "(string \<Rightarrow> jsnum) \<Rightarrow> publisher \<Rightarrow> command list \<Rightarrow> world \<Rightarrow> world" where
  "execute_each strnum eventPublisher [] w = w"
| "execute_each strnum eventPublisher (c # cs) w =
     execute_each strnum eventPublisher cs
       (snd (CreateTransactionService_execute strnum
               PgTransactionWriteRepositoryAdapter_saveTransaction eventPublisher c w))"

text \<open>
  A ledger without transactions in which the users of \<open>us\<close> have a row with balance 0 in
  a floating-point column, with no unit open and no failure injected.
\<close>

definition empty_ledger :: "jsval list \<Rightarrow> world" where
  "empty_ledger us =
     \<lparr>store = \<lparr>transactions = [], users = map_of (map (\<lambda>u. (u, Fin 0)) us),
               balance_column = DoublePrecision\<rparr>,
      txn = None, faults = [], clock = 0, idgen = 0, log = [], published = []\<rparr>"

text \<open>A StringToNumber for the two strings used below.\<close>

definition strnum_sample :: "string \<Rightarrow> jsnum" where
  "strnum_sample s = (if s = ''100'' then Fin 100 else NaN)"

text \<open>A publisher that throws, and one whose promise rejects.\<close>

definition throwing_publisher :: publisher where
  "throwing_publisher ev s = (Threw (Error ''sink unavailable''), s)"

definition rejecting_publisher :: publisher where
  "rejecting_publisher ev s = (Rejected (Error ''sink unavailable''), s)"

text \<open>Sample inputs: a user, requests of the service and commands of \<open>execute\<close>.\<close>

definition u1 :: jsval where
  "u1 = JStr ''u1''"

definition deposit_td :: "rat \<Rightarrow> transactionData" where
  "deposit_td a =
     \<lparr>td_userId = u1, td_amount = JNum (Fin a), td_type = JStr ''deposit'', td_id = JStr ''t1''\<rparr>"

definition withdraw_td :: "rat \<Rightarrow> transactionData" where
  "withdraw_td a =
     \<lparr>td_userId = u1, td_amount = JNum (Fin a), td_type = JStr ''withdraw'', td_id = JStr ''t2''\<rparr>"

definition deposit_cmd :: "jsval \<Rightarrow> command" where
  "deposit_cmd a =
     \<lparr>c_user_id = u1, c_amount = a, c_type = JStr ''deposit'',
      c_transaction_id = JUndefined, c_timestamp = None\<rparr>"

definition withdraw_cmd :: "jsval \<Rightarrow> command" where
  "withdraw_cmd a =
     \<lparr>c_user_id = u1, c_amount = a, c_type = JStr ''withdraw'',
      c_transaction_id = JUndefined, c_timestamp = None\<rparr>"

text \<open>A ledger with four transactions, three of them of \<open>u1\<close>.\<close>

definition sample_ledger :: world where
  "sample_ledger =
     \<lparr>store =
        \<lparr>transactions =
           [\<lparr>transaction_id = Generated 0, user_id = u1, amount = Fin 100,
              tx_type = ''deposit'', timestamp = 5\<rparr>,
            \<lparr>transaction_id = Generated 1, user_id = JStr ''u2'', amount = Fin 7,
              tx_type = ''deposit'', timestamp = 6\<rparr>,
            \<lparr>transaction_id = Generated 2, user_id = u1, amount = Fin 30,
              tx_type = ''withdraw'', timestamp = 9\<rparr>,
            \<lparr>transaction_id = Generated 3, user_id = u1, amount = Fin 10,
              tx_type = ''withdraw'', timestamp = 7\<rparr>],
         users = [u1 \<mapsto> Fin 60, JStr ''u2'' \<mapsto> Fin 7],
         balance_column = DoublePrecision\<rparr>,
      txn = None, faults = [], clock = 10, idgen = 4, log = [], published = []\<rparr>"

text \<open>
  The sum over a history of \<open>+amount\<close> for a deposit and \<open>-amount\<close> for a withdrawal.
\<close>

definition history_total :: "txrow list \<Rightarrow> jsnum" where
  "history_total rows = sum_list (map signed_amount rows)"

text \<open>The maintained balance of a user is the total of the user's rows.\<close>

definition balance_consistent :: "jsval \<Rightarrow> database \<Rightarrow> bool" where
  "balance_consistent u d =
     (users d u = Some (history_total (where_user_id u (transactions d))))"

section \<open>The statements of the client, one by one\<close>

text \<open>The outcome injected for the next statement, and the world once it is taken.\<close>

definition head_fault :: "world \<Rightarrow> error option" where
  "head_fault w = (case faults w of [] \<Rightarrow> None | f # _ \<Rightarrow> f)"

definition pop_fault :: "world \<Rightarrow> world" where
  "pop_fault w = w\<lparr>faults := tl (faults w)\<rparr>"

lemma next_fault_eq: "next_fault w = (head_fault w, pop_fault w)"
  by (simp add: next_fault_def head_fault_def pop_fault_def split: list.splits)

lemma pop_fault_fields [simp]:
  "store (pop_fault w) = store w"
  "txn (pop_fault w) = txn w"
  "clock (pop_fault w) = clock w"
  "idgen (pop_fault w) = idgen w"
  "log (pop_fault w) = log w"
  "published (pop_fault w) = published w"
  "faults (pop_fault w) = tl (faults w)"
  by (simp_all add: pop_fault_def)

lemma head_fault_update [simp]:
  "head_fault (w\<lparr>txn := t\<rparr>) = head_fault w"
  "head_fault (w\<lparr>store := s\<rparr>) = head_fault w"
  "head_fault (w\<lparr>clock := c\<rparr>) = head_fault w"
  "head_fault (w\<lparr>idgen := i\<rparr>) = head_fault w"
  "head_fault (w\<lparr>log := l\<rparr>) = head_fault w"
  "head_fault (w\<lparr>published := p\<rparr>) = head_fault w"
  by (simp_all add: head_fault_def)

lemma pop_fault_update [simp]:
  "pop_fault (w\<lparr>txn := t\<rparr>) = (pop_fault w)\<lparr>txn := t\<rparr>"
  "pop_fault (w\<lparr>store := s\<rparr>) = (pop_fault w)\<lparr>store := s\<rparr>"
  "pop_fault (w\<lparr>clock := c\<rparr>) = (pop_fault w)\<lparr>clock := c\<rparr>"
  "pop_fault (w\<lparr>idgen := i\<rparr>) = (pop_fault w)\<lparr>idgen := i\<rparr>"
  "pop_fault (w\<lparr>log := l\<rparr>) = (pop_fault w)\<lparr>log := l\<rparr>"
  "pop_fault (w\<lparr>published := p\<rparr>) = (pop_fault w)\<lparr>published := p\<rparr>"
  by (simp_all add: pop_fault_def)

lemma view_update [simp]:
  "view (w\<lparr>faults := f\<rparr>) = view w"
  "view (w\<lparr>clock := c\<rparr>) = view w"
  "view (w\<lparr>idgen := i\<rparr>) = view w"
  "view (w\<lparr>log := l\<rparr>) = view w"
  "view (w\<lparr>published := p\<rparr>) = view w"
  "view (pop_fault w) = view w"
  by (simp_all add: view_def pop_fault_def split: option.splits)

lemmas client_defs =
  client_BEGIN_def client_COMMIT_def client_ROLLBACK_def client_query_def
  client_INSERT_defaults_def next_fault_eq view_def set_view_def catch_ROLLBACK_def
  pool_query_def

text \<open>No failure is injected for the next \<open>n\<close> statements.\<close>

lemma no_fault_4:
  assumes "head_fault w = None" and "head_fault (pop_fault w) = None"
    and "head_fault (pop_fault (pop_fault w)) = None"
    and "head_fault (pop_fault (pop_fault (pop_fault w))) = None"
  shows "Some e \<notin> set (take 4 (faults w))"
  using assms
  by (auto simp: head_fault_def pop_fault_def numeral_eq_Suc split: list.splits)

lemma no_fault_5:
  assumes "head_fault w = None" and "head_fault (pop_fault w) = None"
    and "head_fault (pop_fault (pop_fault w)) = None"
    and "head_fault (pop_fault (pop_fault (pop_fault w))) = None"
    and "head_fault (pop_fault (pop_fault (pop_fault (pop_fault w)))) = None"
  shows "Some e \<notin> set (take 5 (faults w))"
  using assms
  by (auto simp: head_fault_def pop_fault_def numeral_eq_Suc split: list.splits)


section \<open>What a write does\<close>

text \<open>
  Every way the \<open>try\<close> block of \<open>PostgresRepository.saveTransaction\<close> can end. It
  fails with the committed data as it was; or it returns the new row, the client saw a
  row of the user, the code computed a new balance that the UPDATE accepted, the
  committed data is what the client saw with the row added and the new balance, no unit
  is open, and none of its five statements failed.
\<close>

lemma PostgresRepository_saveTransaction_try_outcome:
  "case PostgresRepository_saveTransaction_try td w of
     (Inl e, w') \<Rightarrow> store w' = store w
   | (Inr r, w') \<Rightarrow>
       (case users (view w) (td_userId td) of
          None \<Rightarrow> False
        | Some b \<Rightarrow>
            r = \<lparr>transaction_id = Generated (idgen w), user_id = td_userId td,
                 amount = num_of (td_amount td), tx_type = str_of (td_type td),
                 timestamp = clock w\<rparr> \<and>
            (case newBalance_of (balance_column (view w)) (str_of (td_type td)) b
                    (num_of (td_amount td)) of
               Inl e \<Rightarrow> False
             | Inr None \<Rightarrow> False
             | Inr (Some nb) \<Rightarrow>
                 store w' = update_balance (td_userId td) (\<lambda>_. nb) (insert_row r (view w)))) \<and>
       txn w' = None \<and>
       head_fault w = None \<and> head_fault (pop_fault w) = None \<and>
       head_fault (pop_fault (pop_fault w)) = None \<and>
       head_fault (pop_fault (pop_fault (pop_fault w))) = None \<and>
       head_fault (pop_fault (pop_fault (pop_fault (pop_fault w)))) = None"
  by (simp add: PostgresRepository_saveTransaction_try_def client_defs Let_def select_balance_def
      update_balance_to_def insert_row_def update_balance_def
      split: option.splits sum.splits)

text \<open>The same for \<open>PgTransactionWriteRepositoryAdapter.saveTransaction\<close>, of four statements.\<close>

lemma PgTransactionWriteRepositoryAdapter_saveTransaction_try_outcome:
  "case PgTransactionWriteRepositoryAdapter_saveTransaction_try tx w of
     (Inl e, w') \<Rightarrow> store w' = store w
   | (Inr u, w') \<Rightarrow>
       store w' = update_balance (user_id tx)
         (\<lambda>b. if tx_type tx = ''deposit'' then num_add b (amount tx)
               else num_sub b (amount tx))
         (insert_row tx (view w)) \<and>
       txn w' = None \<and>
       transaction_id tx \<notin> set (map transaction_id (transactions (view w))) \<and>
       head_fault w = None \<and> head_fault (pop_fault w) = None \<and>
       head_fault (pop_fault (pop_fault w)) = None \<and>
       head_fault (pop_fault (pop_fault (pop_fault w))) = None"
  by (simp add: PgTransactionWriteRepositoryAdapter_saveTransaction_try_def client_defs
      insert_row_pk_def insert_row_def update_balance_def
      split: option.splits)


text \<open>
  \<open>saveTransaction\<close> returns what its \<open>try\<close> block returns. When the block fails, the
  committed data is as it was; when the ROLLBACK does not fail as well, no unit stays
  open and the error thrown is that of the block.
\<close>

lemma PostgresRepository_saveTransaction_Inr:
  "PostgresRepository_saveTransaction td w = (Inr r, w') \<longleftrightarrow>
   PostgresRepository_saveTransaction_try td w = (Inr r, w')"
  by (auto simp: PostgresRepository_saveTransaction_def catch_ROLLBACK_def client_ROLLBACK_def
      next_fault_eq split: prod.splits sum.splits option.splits)

lemma PostgresRepository_saveTransaction_Inl:
  assumes "PostgresRepository_saveTransaction td w = (Inl e, w')"
  shows "store w' = store w"
    and "head_fault (snd (PostgresRepository_saveTransaction_try td w)) = None \<Longrightarrow>
           txn w' = None \<and> fst (PostgresRepository_saveTransaction_try td w) = Inl e"
  using assms PostgresRepository_saveTransaction_try_outcome [where td = td and w = w]
  by (auto simp: PostgresRepository_saveTransaction_def catch_ROLLBACK_def client_ROLLBACK_def
      next_fault_eq split: prod.splits sum.splits option.splits)

lemma PgTransactionWriteRepositoryAdapter_saveTransaction_Inr:
  "PgTransactionWriteRepositoryAdapter_saveTransaction tx w = (Inr u, w') \<longleftrightarrow>
   PgTransactionWriteRepositoryAdapter_saveTransaction_try tx w = (Inr u, w')"
  by (auto simp: PgTransactionWriteRepositoryAdapter_saveTransaction_def catch_ROLLBACK_def
      client_ROLLBACK_def next_fault_eq split: prod.splits sum.splits option.splits)

lemma PgTransactionWriteRepositoryAdapter_saveTransaction_Inl:
  assumes "PgTransactionWriteRepositoryAdapter_saveTransaction tx w = (Inl e, w')"
  shows "store w' = store w"
    and "head_fault (snd (PgTransactionWriteRepositoryAdapter_saveTransaction_try tx w)) = None \<Longrightarrow>
           txn w' = None \<and> fst (PgTransactionWriteRepositoryAdapter_saveTransaction_try tx w) = Inl e"
  using assms PgTransactionWriteRepositoryAdapter_saveTransaction_try_outcome [where tx = tx and w = w]
  by (auto simp: PgTransactionWriteRepositoryAdapter_saveTransaction_def catch_ROLLBACK_def
      client_ROLLBACK_def next_fault_eq split: prod.splits sum.splits option.splits)

text \<open>What a write that returns has done.\<close>

lemma PgTransactionWriteRepositoryAdapter_saveTransaction_done:
  assumes "PgTransactionWriteRepositoryAdapter_saveTransaction tx w = (Inr u, w')"
  shows "store w' = update_balance (user_id tx)
           (\<lambda>b. if tx_type tx = ''deposit'' then num_add b (amount tx)
                 else num_sub b (amount tx))
           (insert_row tx (view w))"
    and "txn w' = None"
    and "transaction_id tx \<notin> set (map transaction_id (transactions (view w)))"
    and "head_fault w = None \<and> head_fault (pop_fault w) = None \<and>
       head_fault (pop_fault (pop_fault w)) = None \<and>
       head_fault (pop_fault (pop_fault (pop_fault w))) = None"
  using PgTransactionWriteRepositoryAdapter_saveTransaction_try_outcome [where tx = tx and w = w]
    assms [unfolded PgTransactionWriteRepositoryAdapter_saveTransaction_Inr]
  by simp_all

lemma PostgresRepository_saveTransaction_done:
  assumes "PostgresRepository_saveTransaction td w = (Inr r, w')"
  shows "\<exists>b nb. users (view w) (td_userId td) = Some b \<and>
           newBalance_of (balance_column (view w)) (str_of (td_type td)) b
             (num_of (td_amount td)) = Inr (Some nb) \<and>
           store w' = update_balance (td_userId td) (\<lambda>_. nb) (insert_row r (view w))"
    and "r = \<lparr>transaction_id = Generated (idgen w), user_id = td_userId td,
                 amount = num_of (td_amount td), tx_type = str_of (td_type td),
                 timestamp = clock w\<rparr>"
    and "txn w' = None"
    and "head_fault w = None \<and> head_fault (pop_fault w) = None \<and>
       head_fault (pop_fault (pop_fault w)) = None \<and>
       head_fault (pop_fault (pop_fault (pop_fault w))) = None \<and>
       head_fault (pop_fault (pop_fault (pop_fault (pop_fault w)))) = None"
  using PostgresRepository_saveTransaction_try_outcome [where td = td and w = w]
    assms [unfolded PostgresRepository_saveTransaction_Inr]
  by (simp_all split: option.splits sum.splits)

text \<open>A read sees the committed data and the next injected outcome, nothing else.\<close>

lemma reads_of_store:
  assumes "store w' = store w"
  shows "fst (PostgresRepository_getUserBalance u (w'\<lparr>faults := fs\<rparr>)) =
           fst (PostgresRepository_getUserBalance u (w\<lparr>faults := fs\<rparr>))"
    and "fst (PostgresRepository_getUserTransactions u (w'\<lparr>faults := fs\<rparr>)) =
           fst (PostgresRepository_getUserTransactions u (w\<lparr>faults := fs\<rparr>))"
    and "fst (PgTransactionReadRepositoryAdapter_getBalanceByUser u (w'\<lparr>faults := fs\<rparr>)) =
           fst (PgTransactionReadRepositoryAdapter_getBalanceByUser u (w\<lparr>faults := fs\<rparr>))"
    and "fst (PgTransactionReadRepositoryAdapter_getTransactionsByUser u n (w'\<lparr>faults := fs\<rparr>)) =
           fst (PgTransactionReadRepositoryAdapter_getTransactionsByUser u n (w\<lparr>faults := fs\<rparr>))"
  using assms
  by (simp_all add: PostgresRepository_getUserBalance_def
      PostgresRepository_getUserTransactions_def
      PgTransactionReadRepositoryAdapter_getBalanceByUser_def
      PgTransactionReadRepositoryAdapter_getTransactionsByUser_def
      pool_query_def next_fault_def split: list.splits option.splits)

text \<open>A failure injected into a statement of a write makes the write fail.\<close>

lemma PostgresRepository_saveTransaction_fault:
  assumes "Some e \<in> set (take 5 (faults w))"
  shows "\<exists>e' w'. PostgresRepository_saveTransaction td w = (Inl e', w')"
proof (cases "PostgresRepository_saveTransaction td w")
  case (Pair r w')
  show ?thesis
  proof (cases r)
    case (Inl e')
    with Pair show ?thesis by simp
  next
    case (Inr row)
    with Pair PostgresRepository_saveTransaction_done(4) [where td = td and w = w]
    have "Some e \<notin> set (take 5 (faults w))"
      by (intro no_fault_5) simp_all
    with assms show ?thesis by simp
  qed
qed

lemma PgTransactionWriteRepositoryAdapter_saveTransaction_fault:
  assumes "Some e \<in> set (take 4 (faults w))"
  shows "\<exists>e' w'. PgTransactionWriteRepositoryAdapter_saveTransaction tx w = (Inl e', w')"
proof (cases "PgTransactionWriteRepositoryAdapter_saveTransaction tx w")
  case (Pair r w')
  show ?thesis
  proof (cases r)
    case (Inl e')
    with Pair show ?thesis by simp
  next
    case (Inr row)
    with Pair PgTransactionWriteRepositoryAdapter_saveTransaction_done(4) [where tx = tx and w = w]
    have "Some e \<notin> set (take 4 (faults w))"
      by (intro no_fault_4) simp_all
    with assms show ?thesis by simp
  qed
qed

text \<open>The statements unfolded for evaluation on a given list of injected outcomes.\<close>

lemmas client_eval =
  client_BEGIN_def client_COMMIT_def client_ROLLBACK_def client_query_def
  client_INSERT_defaults_def next_fault_def view_def set_view_def catch_ROLLBACK_def
  pool_query_def

lemma PostgresRepository_saveTransaction_errors:
  assumes "faults w = []"
  shows "users (view w) (td_userId td) = None \<Longrightarrow>
           fst (PostgresRepository_saveTransaction td w) = Inl (Error ''User not found'')"
    and "users (view w) (td_userId td) = Some b \<Longrightarrow> str_of (td_type td) = ''withdraw'' \<Longrightarrow>
           num_gt (num_of (td_amount td)) b \<Longrightarrow>
           fst (PostgresRepository_saveTransaction td w) = Inl (Error ''Insufficient balance'')"
    and "str_of (td_type td) \<noteq> ''deposit'' \<Longrightarrow> str_of (td_type td) \<noteq> ''withdraw'' \<Longrightarrow>
           users (view w) (td_userId td) = Some b \<Longrightarrow>
           fst (PostgresRepository_saveTransaction td w) = Inl (Error ''Invalid transaction type'')"
proof -
  note defs = PostgresRepository_saveTransaction_def
      PostgresRepository_saveTransaction_try_def client_eval Let_def select_balance_def
      newBalance_of_def
  show "users (view w) (td_userId td) = None \<Longrightarrow>
           fst (PostgresRepository_saveTransaction td w) = Inl (Error ''User not found'')"
    using assms by (cases "txn w") (simp_all add: defs)
  show "users (view w) (td_userId td) = Some b \<Longrightarrow> str_of (td_type td) = ''withdraw'' \<Longrightarrow>
           num_gt (num_of (td_amount td)) b \<Longrightarrow>
           fst (PostgresRepository_saveTransaction td w) = Inl (Error ''Insufficient balance'')"
    using assms by (cases "txn w") (simp_all add: defs)
  show "str_of (td_type td) \<noteq> ''deposit'' \<Longrightarrow> str_of (td_type td) \<noteq> ''withdraw'' \<Longrightarrow>
           users (view w) (td_userId td) = Some b \<Longrightarrow>
           fst (PostgresRepository_saveTransaction td w) = Inl (Error ''Invalid transaction type'')"
    using assms by (cases "txn w") (simp_all add: defs)
qed

lemma PostgresRepository_saveTransaction_injected:
  assumes "faults w = replicate k None @ [Some e]" and "k < 5"
    and "users (view w) (td_userId td) = Some b"
    and "str_of (td_type td) = ''deposit''"
    and "plus_assign (balance_column (view w)) b (num_of (td_amount td)) = Some nb"
  shows "fst (PostgresRepository_saveTransaction td w) = Inl e"
proof -
  from \<open>k < 5\<close> have "k = 0 \<or> k = 1 \<or> k = 2 \<or> k = 3 \<or> k = 4" by arith
  then show ?thesis
    using assms
    by (cases "txn w"; elim disjE)
      (simp_all add: PostgresRepository_saveTransaction_def
        PostgresRepository_saveTransaction_try_def client_eval Let_def select_balance_def
        newBalance_of_def update_balance_to_def
        insert_row_def update_balance_def numeral_eq_Suc)
qed

lemma PgTransactionWriteRepositoryAdapter_saveTransaction_injected:
  assumes "faults w = replicate k None @ [Some e]" and "k < 4"
    and "transaction_id tx \<notin> set (map transaction_id (transactions (view w)))"
  shows "fst (PgTransactionWriteRepositoryAdapter_saveTransaction tx w) = Inl e"
proof -
  from \<open>k < 4\<close> have "k = 0 \<or> k = 1 \<or> k = 2 \<or> k = 3" by arith
  then show ?thesis
    using assms
    by (cases "txn w"; elim disjE)
      (simp_all add: PgTransactionWriteRepositoryAdapter_saveTransaction_def
        PgTransactionWriteRepositoryAdapter_saveTransaction_try_def client_eval Let_def
        insert_row_pk_def insert_row_def update_balance_def numeral_eq_Suc split: option.splits)
qed

section \<open>Atomicity of a write\<close>



text \<open>The sample inputs, unfolded.\<close>

lemmas sample_defs = u1_def deposit_td_def withdraw_td_def deposit_cmd_def withdraw_cmd_def
  empty_ledger_def strnum_sample_def


section \<open>Validation\<close>

text \<open>
  Claim C10. The amount check of \<open>execute\<close> lets through every truthy amount \<open>v\<close> for
  which \<open>Number(v) <= 0\<close> is false: for a command with a user id and a valid type the
  validation passes, the transaction is built with the amount \<open>Number(v)\<close> and handed
  to the write repository. So the string \<open>'100'\<close> is stored as the number 100, and a
  string that is not a number, such as \<open>'abc'\<close>, reaches the repository as \<open>NaN\<close>.
\<close>

theorem execute_accepts_coerced_amounts:
  assumes "truthy (c_user_id command)"
    and "c_type command = JStr ''deposit'' \<or> c_type command = JStr ''withdraw''"
    and "truthy (c_amount command)"
    and "\<not> num_le (Number strnum (c_amount command)) (Fin 0)"
  shows "CreateTransactionService_validate strnum command = None \<and>
         amount (fst (CreateTransactionService_build_tx strnum command w)) =
           Number strnum (c_amount command) \<and>
         CreateTransactionService_execute strnum writeRepo_saveTransaction eventPublisher command w =
           (case CreateTransactionService_build_tx strnum command w of
              (tx, w1) \<Rightarrow>
                (case writeRepo_saveTransaction tx w1 of
                   (Inl e, w2) \<Rightarrow> (Inl e, w2)
                 | (Inr _, w2) \<Rightarrow> CreateTransactionService_notify eventPublisher tx w2)) \<and>
         (strnum ''abc'' = NaN \<and> c_amount command = JStr ''abc'' \<longrightarrow>
            amount (fst (CreateTransactionService_build_tx strnum command w)) = NaN) \<and>
         (strnum ''100'' = Fin 100 \<and> c_amount command = JStr ''100'' \<longrightarrow>
            amount (fst (CreateTransactionService_build_tx strnum command w)) = Fin 100)"
proof -
  have v: "CreateTransactionService_validate strnum command = None"
    using assms by (auto simp: CreateTransactionService_validate_def)
  have a: "amount (fst (CreateTransactionService_build_tx strnum command w)) =
             Number strnum (c_amount command)"
    by (simp add: CreateTransactionService_build_tx_def uuidv4_def new_Date_def
        split: option.splits)
  from v a show ?thesis
    by (simp add: CreateTransactionService_execute_def)
qed

text \<open>
  Deposits of \<open>'abc'\<close> and of \<open>'100'\<close>, with a StringToNumber that reads the first
  as \<open>NaN\<close> and the second as 100: both pass, and the row written holds \<open>NaN\<close> and 100.
\<close>

theorem execute_accepts_coerced_amounts_witness:
  "CreateTransactionService_validate strnum_sample (deposit_cmd (JStr ''abc'')) = None \<and>
   amount (fst (CreateTransactionService_build_tx strnum_sample (deposit_cmd (JStr ''abc''))
     (empty_ledger [u1]))) = NaN \<and>
   CreateTransactionService_validate strnum_sample (deposit_cmd (JStr ''100'')) = None \<and>
   amount (fst (CreateTransactionService_build_tx strnum_sample (deposit_cmd (JStr ''100''))
     (empty_ledger [u1]))) = Fin 100 \<and>
   map amount (transactions (store (snd (CreateTransactionService_execute strnum_sample
     PgTransactionWriteRepositoryAdapter_saveTransaction EventPublisherSimulator_publish
     (deposit_cmd (JStr ''abc'')) (empty_ledger [u1]))))) = [NaN] \<and>
   map amount (transactions (store (snd (CreateTransactionService_execute strnum_sample
     PgTransactionWriteRepositoryAdapter_saveTransaction EventPublisherSimulator_publish
     (deposit_cmd (JStr ''100'')) (empty_ledger [u1]))))) = [Fin 100]"
proof -
  have h: "truthy (c_user_id (deposit_cmd a))"
    "c_type (deposit_cmd a) = JStr ''deposit'' \<or> c_type (deposit_cmd a) = JStr ''withdraw''" for a
    by (simp_all add: deposit_cmd_def u1_def)
  have abc: "truthy (c_amount (deposit_cmd (JStr ''abc'')))"
    "\<not> num_le (Number strnum_sample (c_amount (deposit_cmd (JStr ''abc'')))) (Fin 0)"
    by (simp_all add: deposit_cmd_def strnum_sample_def)
  have hundred: "truthy (c_amount (deposit_cmd (JStr ''100'')))"
    "\<not> num_le (Number strnum_sample (c_amount (deposit_cmd (JStr ''100'')))) (Fin 0)"
    by (simp_all add: deposit_cmd_def strnum_sample_def)
  note t1 = execute_accepts_coerced_amounts [OF h abc,
      where w = "empty_ledger [u1]"
        and writeRepo_saveTransaction = PgTransactionWriteRepositoryAdapter_saveTransaction
        and eventPublisher = EventPublisherSimulator_publish]
  note t2 = execute_accepts_coerced_amounts [OF h hundred,
      where w = "empty_ledger [u1]"
        and writeRepo_saveTransaction = PgTransactionWriteRepositoryAdapter_saveTransaction
        and eventPublisher = EventPublisherSimulator_publish]
  have s1: "map amount (transactions (store (snd (CreateTransactionService_execute strnum_sample
     PgTransactionWriteRepositoryAdapter_saveTransaction EventPublisherSimulator_publish
     (deposit_cmd (JStr ''abc'')) (empty_ledger [u1]))))) = [NaN]"
    by code_simp
  have s2: "map amount (transactions (store (snd (CreateTransactionService_execute strnum_sample
     PgTransactionWriteRepositoryAdapter_saveTransaction EventPublisherSimulator_publish
     (deposit_cmd (JStr ''100'')) (empty_ledger [u1]))))) = [Fin 100]"
    by code_simp
  from t1 t2 s1 s2 show ?thesis
    by (simp add: strnum_sample_def deposit_cmd_def)
qed

lemma logError_fields [simp]:
  "store (logError m w) = store w" "txn (logError m w) = txn w"
  "faults (logError m w) = faults w" "published (logError m w) = published w"
  "clock (logError m w) = clock w" "idgen (logError m w) = idgen w"
  "log (logError m w) = log w @ [(''ERROR'', m)]"
  by (simp_all add: logError_def)

text \<open>
  Claim C7, amended. \<open>processTransaction\<close> checks, in this order: the user id is
  truthy and a string; the amount has type number and is not \<open><= 0\<close>; the type is
  \<open>deposit\<close> or \<open>withdraw\<close>. \<open>execute\<close> checks, in this order: the user id is truthy
  (it need not be a string); the amount is truthy and \<open>Number(amount) <= 0\<close> is false;
  the type is \<open>deposit\<close> or \<open>withdraw\<close>. Each fails with the error of the first check
  violated, whatever the injected repository and publisher are: neither is called.
  \<open>execute\<close> leaves the world as it was; \<open>processTransaction\<close> adds a line to the log
  and changes nothing else.
\<close>

theorem validation_order_no_store_call:
  "(\<not> truthy (td_userId td) \<or> typeof (td_userId td) \<noteq> ''string'' \<longrightarrow>
      TransactionService_processTransaction repository eventPublisher td w =
        (Inl (Error ''Invalid or missing userId''), logError ''Invalid or missing userId'' w)) \<and>
   (truthy (td_userId td) \<and> typeof (td_userId td) = ''string'' \<and>
    (typeof (td_amount td) \<noteq> ''number'' \<or> num_le (num_of (td_amount td)) (Fin 0)) \<longrightarrow>
      TransactionService_processTransaction repository eventPublisher td w =
        (Inl (Error ''Amount must be a positive number''), logError ''Amount must be positive'' w)) \<and>
   (truthy (td_userId td) \<and> typeof (td_userId td) = ''string'' \<and>
    typeof (td_amount td) = ''number'' \<and> \<not> num_le (num_of (td_amount td)) (Fin 0) \<and>
    td_type td \<noteq> JStr ''deposit'' \<and> td_type td \<noteq> JStr ''withdraw'' \<longrightarrow>
      TransactionService_processTransaction repository eventPublisher td w =
        (Inl (Error type_message), logError ''Invalid transaction type'' w)) \<and>
   store (logError m w) = store w \<and> txn (logError m w) = txn w \<and>
   faults (logError m w) = faults w \<and> published (logError m w) = published w \<and>
   (\<not> truthy (c_user_id c) \<longrightarrow>
      CreateTransactionService_execute strnum writeRepo_saveTransaction pub c w =
        (Inl (Error ''user_id required''), w)) \<and>
   (truthy (c_user_id c) \<and>
    (\<not> truthy (c_amount c) \<or> num_le (Number strnum (c_amount c)) (Fin 0)) \<longrightarrow>
      CreateTransactionService_execute strnum writeRepo_saveTransaction pub c w =
        (Inl (Error ''amount must be positive''), w)) \<and>
   (truthy (c_user_id c) \<and> truthy (c_amount c) \<and>
    \<not> num_le (Number strnum (c_amount c)) (Fin 0) \<and>
    c_type c \<noteq> JStr ''deposit'' \<and> c_type c \<noteq> JStr ''withdraw'' \<longrightarrow>
      CreateTransactionService_execute strnum writeRepo_saveTransaction pub c w =
        (Inl (Error ''invalid type''), w))"
  by (simp add: TransactionService_processTransaction_def CreateTransactionService_execute_def
      CreateTransactionService_validate_def)

text \<open>A deposit of \<open>-5\<close> is refused on both paths, and nothing is recorded.\<close>

theorem validation_order_no_store_call_witness:
  "TransactionService_processTransaction PostgresRepository (Some EventPublisherMock_publish)
      (deposit_td (- 5)) (empty_ledger [u1]) =
     (Inl (Error ''Amount must be a positive number''),
      logError ''Amount must be positive'' (empty_ledger [u1])) \<and>
   store (logError ''Amount must be positive'' (empty_ledger [u1])) = store (empty_ledger [u1]) \<and>
   CreateTransactionService_execute strnum_sample
      PgTransactionWriteRepositoryAdapter_saveTransaction EventPublisherSimulator_publish
      (deposit_cmd (JNum (Fin (- 5)))) (empty_ledger [u1]) =
     (Inl (Error ''amount must be positive''), empty_ledger [u1])"
  using validation_order_no_store_call
    [where td = "deposit_td (- 5)" and w = "empty_ledger [u1]"
       and repository = PostgresRepository and eventPublisher = "Some EventPublisherMock_publish"
       and c = "deposit_cmd (JNum (Fin (- 5)))" and strnum = strnum_sample
       and writeRepo_saveTransaction = PgTransactionWriteRepositoryAdapter_saveTransaction
       and pub = EventPublisherSimulator_publish and m = "''Amount must be positive''"]
  by (simp add: deposit_td_def deposit_cmd_def u1_def)

text \<open>
  Claim C7 as stated fails: \<open>execute\<close> accepts the user id 42, which is not a string,
  and the write is made.
\<close>

theorem execute_accepts_number_user_id:
  "typeof (JNum (Fin 42)) \<noteq> ''string'' \<and>
   fst (CreateTransactionService_execute strnum_sample
      PgTransactionWriteRepositoryAdapter_saveTransaction EventPublisherSimulator_publish
      \<lparr>c_user_id = JNum (Fin 42), c_amount = JNum (Fin 10), c_type = JStr ''deposit'',
       c_transaction_id = JUndefined, c_timestamp = None\<rparr> (empty_ledger [JNum (Fin 42)])) =
     Inr \<lparr>transaction_id = Generated 0, user_id = JNum (Fin 42), amount = Fin 10,
          tx_type = ''deposit'', timestamp = 0\<rparr> \<and>
   users (store (snd (CreateTransactionService_execute strnum_sample
      PgTransactionWriteRepositoryAdapter_saveTransaction EventPublisherSimulator_publish
      \<lparr>c_user_id = JNum (Fin 42), c_amount = JNum (Fin 10), c_type = JStr ''deposit'',
       c_transaction_id = JUndefined, c_timestamp = None\<rparr> (empty_ledger [JNum (Fin 42)]))))
     (JNum (Fin 42)) = Some (Fin 10)"
  by code_simp

section \<open>The event after the write\<close>

lemma publish_with_fields [simp]:
  "store (snd (publish_with pub ev w)) = store w"
  "txn (snd (publish_with pub ev w)) = txn w"
  "faults (snd (publish_with pub ev w)) = faults w"
  "fst (publish_with pub ev w) = fst (pub ev (log w, published w))"
  by (simp_all add: publish_with_def split: prod.splits)


lemma logInfo_fields [simp]:
  "store (logInfo m w) = store w" "txn (logInfo m w) = txn w"
  "faults (logInfo m w) = faults w" "published (logInfo m w) = published w"
  by (simp_all add: logInfo_def)

lemma logger_info_fields [simp]:
  "store (logger_info m w) = store w" "txn (logger_info m w) = txn w"
  "faults (logger_info m w) = faults w" "published (logger_info m w) = published w"
  by (simp_all add: logger_info_def)

lemma processTransaction_with_failing_publisher:
  assumes "TransactionService_processTransaction repository None td w = (Inr saved, w2)"
    and "fst (pub (Event ''TRANSACTION_PROCESSED'' saved None) (log w2, published w2)) = Threw e \<or>
         fst (pub (Event ''TRANSACTION_PROCESSED'' saved None) (log w2, published w2)) = Rejected e"
  shows "fst (TransactionService_processTransaction repository (Some pub) td w) = Inl e"
    and "store (snd (TransactionService_processTransaction repository (Some pub) td w)) = store w2"
    and "last (log (snd (TransactionService_processTransaction repository (Some pub) td w))) =
           (''ERROR'', ''Error processing transaction'')"
proof -
  let ?ev = "Event ''TRANSACTION_PROCESSED'' saved None"
  obtain r w3 where p: "publish_with pub ?ev w2 = (r, w3)"
    by (cases "publish_with pub ?ev w2")
  have r: "r = Threw e \<or> r = Rejected e"
    using assms(2) publish_with_fields(4) [of pub ?ev w2] p by simp
  have s: "store w3 = store w2"
    using publish_with_fields(1) [of pub ?ev w2] p by simp
  have t: "TransactionService_processTransaction_try repository (Some pub) td
             (logInfo ''Processing transaction'' w) = (Inl e, w3)"
    using assms(1) p r
    by (auto simp: TransactionService_processTransaction_def
        TransactionService_processTransaction_try_def Let_def
        split: if_splits prod.splits sum.splits)
  have v: "\<not> (\<not> truthy (td_userId td) \<or> typeof (td_userId td) \<noteq> ''string'')"
    "\<not> (typeof (td_amount td) \<noteq> ''number'' \<or> num_le (num_of (td_amount td)) (Fin 0))"
    "\<not> td_type td \<notin> set [JStr ''deposit'', JStr ''withdraw'']"
    using assms(1)
    by (auto simp: TransactionService_processTransaction_def split: if_splits)
  have "TransactionService_processTransaction repository (Some pub) td w =
          (Inl e, logError ''Error processing transaction'' w3)"
    unfolding TransactionService_processTransaction_def using v t by simp
  with s show "fst (TransactionService_processTransaction repository (Some pub) td w) = Inl e"
    and "store (snd (TransactionService_processTransaction repository (Some pub) td w)) = store w2"
    and "last (log (snd (TransactionService_processTransaction repository (Some pub) td w))) =
           (''ERROR'', ''Error processing transaction'')"
    by simp_all
qed

lemma execute_after_write:
  assumes "CreateTransactionService_validate strnum c = None"
    and "CreateTransactionService_build_tx strnum c w = (tx, w1)"
    and "writeRepo_saveTransaction tx w1 = (Inr u, w2)"
  shows "fst (pub (Event ''TransactionCreated'' tx (Some (clock w2))) (log w2, published w2)) = Threw e
           \<Longrightarrow> fst (CreateTransactionService_execute strnum writeRepo_saveTransaction pub c w) = Inl e"
    and "fst (pub (Event ''TransactionCreated'' tx (Some (clock w2))) (log w2, published w2)) = Rejected e
           \<Longrightarrow> fst (CreateTransactionService_execute strnum writeRepo_saveTransaction pub c w) = Inr tx"
    and "fst (pub (Event ''TransactionCreated'' tx (Some (clock w2))) (log w2, published w2)) = Returned
           \<Longrightarrow> fst (CreateTransactionService_execute strnum writeRepo_saveTransaction pub c w) = Inr tx"
    and "store (snd (CreateTransactionService_execute strnum writeRepo_saveTransaction pub c w)) = store w2"
    and "fst (pub (Event ''TransactionCreated'' tx (Some (clock w2))) (log w2, published w2)) = Threw e
           \<Longrightarrow> log (snd (CreateTransactionService_execute strnum writeRepo_saveTransaction pub c w)) =
                 fst (snd (pub (Event ''TransactionCreated'' tx (Some (clock w2)))
                             (log w2, published w2)))"
  using assms
  by (auto simp: CreateTransactionService_execute_def CreateTransactionService_notify_def
      new_Date_def publish_with_def logger_info_def split: prod.splits pub_outcome.splits)

text \<open>
  Claim C6, amended. A publisher that fails after the write has committed does not roll
  the write back: the store stays as the write left it. But the failure reaches the
  caller. \<open>processTransaction\<close> awaits \<open>publish\<close> inside its \<open>try\<close>: when the same
  call without a publisher returns the saved transaction and the publisher throws or
  rejects, the call logs the error and fails with it. \<open>execute\<close> does not await
  \<open>publish\<close>: it fails when the publisher throws, adding no line of its own to the log,
  and returns the transaction when the publisher's promise rejects.
\<close>

theorem publish_failure_keeps_the_write:
  "(TransactionService_processTransaction repository None td w = (Inr saved, w2) \<and>
    (fst (pub (Event ''TRANSACTION_PROCESSED'' saved None) (log w2, published w2)) = Threw e \<or>
     fst (pub (Event ''TRANSACTION_PROCESSED'' saved None) (log w2, published w2)) = Rejected e) \<longrightarrow>
      fst (TransactionService_processTransaction repository (Some pub) td w) = Inl e \<and>
      store (snd (TransactionService_processTransaction repository (Some pub) td w)) = store w2 \<and>
      last (log (snd (TransactionService_processTransaction repository (Some pub) td w))) =
        (''ERROR'', ''Error processing transaction'')) \<and>
   (CreateTransactionService_validate strnum c = None \<and>
    CreateTransactionService_build_tx strnum c w = (tx, w1) \<and>
    writeRepo_saveTransaction tx w1 = (Inr u, w3) \<longrightarrow>
      store (snd (CreateTransactionService_execute strnum writeRepo_saveTransaction pub c w)) =
        store w3 \<and>
      (fst (pub (Event ''TransactionCreated'' tx (Some (clock w3))) (log w3, published w3)) = Threw e
         \<longrightarrow> fst (CreateTransactionService_execute strnum writeRepo_saveTransaction pub c w) = Inl e \<and>
             log (snd (CreateTransactionService_execute strnum writeRepo_saveTransaction pub c w)) =
               fst (snd (pub (Event ''TransactionCreated'' tx (Some (clock w3)))
                           (log w3, published w3)))) \<and>
      (fst (pub (Event ''TransactionCreated'' tx (Some (clock w3))) (log w3, published w3)) = Rejected e
         \<longrightarrow> fst (CreateTransactionService_execute strnum writeRepo_saveTransaction pub c w) = Inr tx))"
proof -
  have a: "TransactionService_processTransaction repository None td w = (Inr saved, w2) \<and>
    (fst (pub (Event ''TRANSACTION_PROCESSED'' saved None) (log w2, published w2)) = Threw e \<or>
     fst (pub (Event ''TRANSACTION_PROCESSED'' saved None) (log w2, published w2)) = Rejected e) \<longrightarrow>
      fst (TransactionService_processTransaction repository (Some pub) td w) = Inl e \<and>
      store (snd (TransactionService_processTransaction repository (Some pub) td w)) = store w2 \<and>
      last (log (snd (TransactionService_processTransaction repository (Some pub) td w))) =
        (''ERROR'', ''Error processing transaction'')"
  proof (intro impI)
    assume h: "TransactionService_processTransaction repository None td w = (Inr saved, w2) \<and>
      (fst (pub (Event ''TRANSACTION_PROCESSED'' saved None) (log w2, published w2)) = Threw e \<or>
       fst (pub (Event ''TRANSACTION_PROCESSED'' saved None) (log w2, published w2)) = Rejected e)"
    from processTransaction_with_failing_publisher
      [where pub = pub and e = e, OF h [THEN conjunct1] h [THEN conjunct2]]
    show "fst (TransactionService_processTransaction repository (Some pub) td w) = Inl e \<and>
      store (snd (TransactionService_processTransaction repository (Some pub) td w)) = store w2 \<and>
      last (log (snd (TransactionService_processTransaction repository (Some pub) td w))) =
        (''ERROR'', ''Error processing transaction'')"
      by (intro conjI)
  qed
  have b: "CreateTransactionService_validate strnum c = None \<and>
    CreateTransactionService_build_tx strnum c w = (tx, w1) \<and>
    writeRepo_saveTransaction tx w1 = (Inr u, w3) \<longrightarrow>
      store (snd (CreateTransactionService_execute strnum writeRepo_saveTransaction pub c w)) =
        store w3 \<and>
      (fst (pub (Event ''TransactionCreated'' tx (Some (clock w3))) (log w3, published w3)) = Threw e
         \<longrightarrow> fst (CreateTransactionService_execute strnum writeRepo_saveTransaction pub c w) = Inl e \<and>
             log (snd (CreateTransactionService_execute strnum writeRepo_saveTransaction pub c w)) =
               fst (snd (pub (Event ''TransactionCreated'' tx (Some (clock w3)))
                           (log w3, published w3)))) \<and>
      (fst (pub (Event ''TransactionCreated'' tx (Some (clock w3))) (log w3, published w3)) = Rejected e
         \<longrightarrow> fst (CreateTransactionService_execute strnum writeRepo_saveTransaction pub c w) = Inr tx)"
  proof (intro impI)
    assume h: "CreateTransactionService_validate strnum c = None \<and>
      CreateTransactionService_build_tx strnum c w = (tx, w1) \<and>
      writeRepo_saveTransaction tx w1 = (Inr u, w3)"
    note h1 = h [THEN conjunct1] and h2 = h [THEN conjunct2, THEN conjunct1]
      and h3 = h [THEN conjunct2, THEN conjunct2]
    from execute_after_write(4)
        [where pub = pub and writeRepo_saveTransaction = writeRepo_saveTransaction, OF h1 h2 h3]
      execute_after_write(1)
        [where pub = pub and e = e and writeRepo_saveTransaction = writeRepo_saveTransaction,
          OF h1 h2 h3]
      execute_after_write(2)
        [where pub = pub and e = e and writeRepo_saveTransaction = writeRepo_saveTransaction,
          OF h1 h2 h3]
      execute_after_write(5)
        [where pub = pub and e = e and writeRepo_saveTransaction = writeRepo_saveTransaction,
          OF h1 h2 h3]
    show "store (snd (CreateTransactionService_execute strnum writeRepo_saveTransaction pub c w)) =
        store w3 \<and>
      (fst (pub (Event ''TransactionCreated'' tx (Some (clock w3))) (log w3, published w3)) = Threw e
         \<longrightarrow> fst (CreateTransactionService_execute strnum writeRepo_saveTransaction pub c w) = Inl e \<and>
             log (snd (CreateTransactionService_execute strnum writeRepo_saveTransaction pub c w)) =
               fst (snd (pub (Event ''TransactionCreated'' tx (Some (clock w3)))
                           (log w3, published w3)))) \<and>
      (fst (pub (Event ''TransactionCreated'' tx (Some (clock w3))) (log w3, published w3)) = Rejected e
         \<longrightarrow> fst (CreateTransactionService_execute strnum writeRepo_saveTransaction pub c w) = Inr tx)"
      by simp
  qed
  from a b show ?thesis by (intro conjI)
qed


text \<open>
  Claim C6 as stated fails: with a publisher that throws, a valid deposit of 100 is
  written on either path and the call ends with the publisher's error.
\<close>

theorem publish_failure_fails_the_call:
  "fst (TransactionService_processTransaction PostgresRepository (Some throwing_publisher)
     (deposit_td 100) (empty_ledger [u1])) = Inl (Error ''sink unavailable'') \<and>
   map amount (transactions (store (snd (TransactionService_processTransaction PostgresRepository
     (Some throwing_publisher) (deposit_td 100) (empty_ledger [u1]))))) = [Fin 100] \<and>
   fst (CreateTransactionService_execute strnum_sample
     PgTransactionWriteRepositoryAdapter_saveTransaction throwing_publisher
     (deposit_cmd (JNum (Fin 100))) (empty_ledger [u1])) = Inl (Error ''sink unavailable'') \<and>
   map amount (transactions (store (snd (CreateTransactionService_execute strnum_sample
     PgTransactionWriteRepositoryAdapter_saveTransaction throwing_publisher
     (deposit_cmd (JNum (Fin 100))) (empty_ledger [u1]))))) = [Fin 100]"
  by code_simp

text \<open>
  A deposit of 100. With a publisher whose promise rejects, \<open>processTransaction\<close>
  fails, and the store is the one the call without a publisher leaves, with the deposit
  in it, while \<open>execute\<close> returns the transaction. With a publisher that throws,
  \<open>execute\<close> fails and the deposit stays written.
\<close>

theorem publish_failure_keeps_the_write_witness:
  "fst (TransactionService_processTransaction PostgresRepository (Some rejecting_publisher)
     (deposit_td 100) (empty_ledger [u1])) = Inl (Error ''sink unavailable'') \<and>
   store (snd (TransactionService_processTransaction PostgresRepository (Some rejecting_publisher)
     (deposit_td 100) (empty_ledger [u1]))) =
   store (snd (TransactionService_processTransaction PostgresRepository None
     (deposit_td 100) (empty_ledger [u1]))) \<and>
   map amount (transactions (store (snd (TransactionService_processTransaction PostgresRepository
     None (deposit_td 100) (empty_ledger [u1]))))) = [Fin 100] \<and>
   fst (CreateTransactionService_execute strnum_sample
     PgTransactionWriteRepositoryAdapter_saveTransaction rejecting_publisher
     (deposit_cmd (JNum (Fin 100))) (empty_ledger [u1])) =
     Inr \<lparr>transaction_id = Generated 0, user_id = u1, amount = Fin 100,
          tx_type = ''deposit'', timestamp = 0\<rparr> \<and>
   fst (CreateTransactionService_execute strnum_sample
     PgTransactionWriteRepositoryAdapter_saveTransaction throwing_publisher
     (deposit_cmd (JNum (Fin 100))) (empty_ledger [u1])) = Inl (Error ''sink unavailable'') \<and>
   map amount (transactions (store (snd (CreateTransactionService_execute strnum_sample
     PgTransactionWriteRepositoryAdapter_saveTransaction throwing_publisher
     (deposit_cmd (JNum (Fin 100))) (empty_ledger [u1]))))) = [Fin 100]"
proof -
  let ?r = "TransactionService_processTransaction PostgresRepository None
     (deposit_td 100) (empty_ledger [u1])"
  let ?saved = "\<lparr>transaction_id = Generated 0, user_id = u1, amount = Fin 100,
     tx_type = ''deposit'', timestamp = 0\<rparr>"
  have f: "fst ?r = Inr ?saved"
    by code_simp
  then have run: "?r = (Inr ?saved, snd ?r)"
    by (simp add: prod_eq_iff)
  have p: "fst (rejecting_publisher (Event ''TRANSACTION_PROCESSED'' ?saved None)
             (log (snd ?r), published (snd ?r))) = Threw (Error ''sink unavailable'') \<or>
           fst (rejecting_publisher (Event ''TRANSACTION_PROCESSED'' ?saved None)
             (log (snd ?r), published (snd ?r))) = Rejected (Error ''sink unavailable'')"
    by (simp add: rejecting_publisher_def)
  have m: "map amount (transactions (store (snd ?r))) = [Fin 100]"
    by code_simp
  from publish_failure_keeps_the_write
    [where repository = PostgresRepository and td = "deposit_td 100" and w = "empty_ledger [u1]"
       and saved = ?saved and ?w2.0 = "snd ?r" and pub = rejecting_publisher
       and e = "Error ''sink unavailable''", THEN conjunct1] run p m
  have a: "fst (TransactionService_processTransaction PostgresRepository (Some rejecting_publisher)
       (deposit_td 100) (empty_ledger [u1])) = Inl (Error ''sink unavailable'') \<and>
     store (snd (TransactionService_processTransaction PostgresRepository (Some rejecting_publisher)
       (deposit_td 100) (empty_ledger [u1]))) = store (snd ?r)"
    by simp
  let ?c = "deposit_cmd (JNum (Fin 100))"
  let ?b = "CreateTransactionService_build_tx strnum_sample ?c (empty_ledger [u1])"
  let ?s = "PgTransactionWriteRepositoryAdapter_saveTransaction ?saved (snd ?b)"
  have v: "CreateTransactionService_validate strnum_sample ?c = None" by code_simp
  have "fst ?b = ?saved" by code_simp
  then have b: "?b = (?saved, snd ?b)" by (simp add: prod_eq_iff)
  have "fst ?s = Inr ()" by code_simp
  then have s: "?s = (Inr (), snd ?s)" by (simp add: prod_eq_iff)
  have n: "map amount (transactions (store (snd ?s))) = [Fin 100]" by code_simp
  have q: "fst (throwing_publisher (Event ''TransactionCreated'' ?saved (Some (clock (snd ?s))))
             (log (snd ?s), published (snd ?s))) = Threw (Error ''sink unavailable'')"
    "fst (rejecting_publisher (Event ''TransactionCreated'' ?saved (Some (clock (snd ?s))))
             (log (snd ?s), published (snd ?s))) = Rejected (Error ''sink unavailable'')"
    by (simp_all add: throwing_publisher_def rejecting_publisher_def)
  from publish_failure_keeps_the_write
    [where strnum = strnum_sample and c = ?c and w = "empty_ledger [u1]" and tx = ?saved
       and ?w1.0 = "snd ?b" and ?w3.0 = "snd ?s" and u = "()"
       and writeRepo_saveTransaction = PgTransactionWriteRepositoryAdapter_saveTransaction
       and e = "Error ''sink unavailable''" and pub = throwing_publisher, THEN conjunct2]
    v b s q(1) n
  have c: "fst (CreateTransactionService_execute strnum_sample
       PgTransactionWriteRepositoryAdapter_saveTransaction throwing_publisher ?c
       (empty_ledger [u1])) = Inl (Error ''sink unavailable'') \<and>
     map amount (transactions (store (snd (CreateTransactionService_execute strnum_sample
       PgTransactionWriteRepositoryAdapter_saveTransaction throwing_publisher ?c
       (empty_ledger [u1]))))) = [Fin 100]"
    by simp
  from publish_failure_keeps_the_write
    [where strnum = strnum_sample and c = ?c and w = "empty_ledger [u1]" and tx = ?saved
       and ?w1.0 = "snd ?b" and ?w3.0 = "snd ?s" and u = "()"
       and writeRepo_saveTransaction = PgTransactionWriteRepositoryAdapter_saveTransaction
       and e = "Error ''sink unavailable''" and pub = rejecting_publisher, THEN conjunct2]
    v b s q(2)
  have d: "fst (CreateTransactionService_execute strnum_sample
       PgTransactionWriteRepositoryAdapter_saveTransaction rejecting_publisher ?c
       (empty_ledger [u1])) = Inr ?saved"
    by simp
  from a m c d show ?thesis by simp
qed

section \<open>Reads\<close>

lemma order_by_timestamp_desc_sorted:
  "sorted_wrt (\<lambda>a b. timestamp b \<le> timestamp a) (order_by_timestamp_desc rs)"
  unfolding order_by_timestamp_desc_def sorted_wrt_rev
  using sorted_sort_key [of timestamp rs] by (simp add: sorted_map)

lemma set_order_by_timestamp_desc [simp]:
  "set (order_by_timestamp_desc rs) = set rs"
  by (simp add: order_by_timestamp_desc_def)

lemma mset_order_by_timestamp_desc [simp]:
  "mset (order_by_timestamp_desc rs) = mset rs"
  by (simp add: order_by_timestamp_desc_def)

text \<open>The first \<open>k\<close> rows of a sorted list come before all the others.\<close>

lemma take_sorted_wrt:
  assumes "sorted_wrt P rs"
  shows "\<forall>a \<in> set (take k rs). \<forall>b \<in># mset rs - mset (take k rs). P a b"
proof -
  have "mset rs = mset (take k rs) + mset (drop k rs)"
    by (metis append_take_drop_id mset_append)
  then have d: "mset rs - mset (take k rs) = mset (drop k rs)"
    by simp
  have "sorted_wrt P (take k rs @ drop k rs)"
    using assms by simp
  then have "\<forall>a \<in> set (take k rs). \<forall>b \<in> set (drop k rs). P a b"
    unfolding sorted_wrt_append by blast
  with d show ?thesis
    by simp
qed

text \<open>What the query of \<open>getTransactionsByUser\<close> gives on the rows of a table.\<close>

lemma sql_LIMIT_rows:
  "case sql_LIMIT (limit_parameter limit) (order_by_timestamp_desc (where_user_id userId ts)) of
     Inl e \<Rightarrow>
       (\<exists>n. limit = LimitNumber n \<and>
          (n = NaN \<or> (\<exists>r. n = Fin r \<and> (of_int \<lfloor>r\<rfloor> \<noteq> r \<or> r < 0 \<or> 2 ^ 63 \<le> r))))
   | Inr rows \<Rightarrow>
       mset rows \<subseteq># mset (where_user_id userId ts) \<and>
       sorted_wrt (\<lambda>a b. timestamp b \<le> timestamp a) rows \<and>
       (\<forall>a \<in> set rows. \<forall>b \<in># mset (where_user_id userId ts) - mset rows.
          timestamp b \<le> timestamp a) \<and>
       length rows =
         (case limit of
            LimitOmitted \<Rightarrow> min 100 (length (where_user_id userId ts))
          | LimitNull \<Rightarrow> length (where_user_id userId ts)
          | LimitNumber n \<Rightarrow>
              (case n of
                 Fin r \<Rightarrow> min (nat \<lfloor>r\<rfloor>) (length (where_user_id userId ts))
               | NaN \<Rightarrow> 0)) \<and>
       (\<forall>r. limit = LimitNumber (Fin r) \<longrightarrow> of_int \<lfloor>r\<rfloor> = r \<and> 0 \<le> r \<and> r < 2 ^ 63) \<and>
       limit \<noteq> LimitNumber NaN"
proof -
  let ?U = "where_user_id userId ts"
  let ?S = "order_by_timestamp_desc ?U"
  have s: "sorted_wrt (\<lambda>a b. timestamp b \<le> timestamp a) (take k ?S)" for k
    using order_by_timestamp_desc_sorted by (rule sorted_wrt_take)
  have m: "mset (take k ?S) \<subseteq># mset ?U" for k
    by (metis append_take_drop_id mset_append mset_order_by_timestamp_desc mset_subset_eq_add_left)
  have r: "\<forall>a \<in> set (take k ?S). \<forall>b \<in># mset ?U - mset (take k ?S).
             timestamp b \<le> timestamp a" for k
    using take_sorted_wrt [OF order_by_timestamp_desc_sorted, of k ?U] by simp
  have l: "length ?S = length ?U"
    by (metis mset_order_by_timestamp_desc size_mset)
  have all: "?S = take (length ?S) ?S"
    by simp
  show ?thesis
  proof (cases limit)
    case LimitOmitted
    with s [of 100] m [of 100] r [of 100] l show ?thesis
      by (simp add: sql_LIMIT_def limit_parameter_def min.commute)
  next
    case LimitNull
    with s [of "length ?S"] m [of "length ?S"] r [of "length ?S"] l show ?thesis
      by (simp add: sql_LIMIT_def limit_parameter_def)
  next
    case (LimitNumber n)
    show ?thesis
    proof (cases n)
      case NaN
      with LimitNumber show ?thesis
        by (simp add: sql_LIMIT_def limit_parameter_def)
    next
      case (Fin q)
      with LimitNumber s [of "nat \<lfloor>q\<rfloor>"] m [of "nat \<lfloor>q\<rfloor>"] r [of "nat \<lfloor>q\<rfloor>"] l show ?thesis
        by (auto simp: sql_LIMIT_def limit_parameter_def min.commute)
    qed
  qed
qed

text \<open>
  Claim C8. \<open>getTransactionsByUser(userId, limit)\<close> fails only when the query does:
  when a failure is injected into it, or when the limit is a number that is not an
  integer from 0 up to the largest bigint. Otherwise it returns transactions of that
  user, ordered by timestamp descending, and they are the most recent ones: every
  transaction of the user that is left out is no later than any that is returned. Their
  number is the limit, or the number of transactions the user has if that is smaller;
  the limit is 100 when none is given, and there is none when the argument is
  \<open>null\<close>. Either way the call leaves the stored data as it was.
  \<open>getUserTransactions(userId)\<close> of the service fails with the error
  \<open>UserId is required\<close> when the user id is missing, whatever the repository is, and
  changes nothing in the store.
\<close>

theorem getTransactionsByUser_bounded_ordered_readonly:
  "(case PgTransactionReadRepositoryAdapter_getTransactionsByUser userId limit w of
      (Inl e, w') \<Rightarrow>
        (head_fault w = Some e \<or>
         head_fault w = None \<and>
         (\<exists>n. limit = LimitNumber n \<and>
            (n = NaN \<or> (\<exists>r. n = Fin r \<and> (of_int \<lfloor>r\<rfloor> \<noteq> r \<or> r < 0 \<or> 2 ^ 63 \<le> r))))) \<and>
        store w' = store w \<and> txn w' = txn w
    | (Inr rows, w') \<Rightarrow>
        head_fault w = None \<and>
        mset rows \<subseteq># mset (where_user_id userId (transactions (store w))) \<and>
        sorted_wrt (\<lambda>a b. timestamp b \<le> timestamp a) rows \<and>
        (\<forall>a \<in> set rows.
           \<forall>b \<in># mset (where_user_id userId (transactions (store w))) - mset rows.
             timestamp b \<le> timestamp a) \<and>
        length rows =
          (case limit of
             LimitOmitted \<Rightarrow> min 100 (length (where_user_id userId (transactions (store w))))
           | LimitNull \<Rightarrow> length (where_user_id userId (transactions (store w)))
           | LimitNumber n \<Rightarrow>
               (case n of
                  Fin r \<Rightarrow> min (nat \<lfloor>r\<rfloor>) (length (where_user_id userId (transactions (store w))))
                | NaN \<Rightarrow> 0)) \<and>
        (\<forall>r. limit = LimitNumber (Fin r) \<longrightarrow> of_int \<lfloor>r\<rfloor> = r \<and> 0 \<le> r \<and> r < 2 ^ 63) \<and>
        limit \<noteq> LimitNumber NaN \<and>
        store w' = store w \<and> txn w' = txn w) \<and>
   (\<not> truthy userId \<longrightarrow>
      fst (TransactionService_getUserTransactions repository userId w) =
        Inl (Error ''UserId is required'') \<and>
      store (snd (TransactionService_getUserTransactions repository userId w)) = store w)"
proof -
  have b: "\<not> truthy userId \<longrightarrow>
      fst (TransactionService_getUserTransactions repository userId w) =
        Inl (Error ''UserId is required'') \<and>
      store (snd (TransactionService_getUserTransactions repository userId w)) = store w"
    by (simp add: TransactionService_getUserTransactions_def logError_def)
  show ?thesis
  proof (cases "head_fault w")
    case (Some e)
    with b show ?thesis
      by (simp add: PgTransactionReadRepositoryAdapter_getTransactionsByUser_def pool_query_def
          next_fault_eq)
  next
    case None
    have "PgTransactionReadRepositoryAdapter_getTransactionsByUser userId limit w =
            (sql_LIMIT (limit_parameter limit)
               (order_by_timestamp_desc (where_user_id userId (transactions (store w)))),
             pop_fault w)"
      using None
      by (simp add: PgTransactionReadRepositoryAdapter_getTransactionsByUser_def pool_query_def
          next_fault_eq)
    with None b sql_LIMIT_rows [of limit userId "transactions (store w)"] show ?thesis
      by (simp split: sum.splits)
  qed
qed

text \<open>
  On a ledger of four rows, three of them of user \<open>u1\<close>: a limit of 2 gives the two
  latest of \<open>u1\<close>, the latest first; the limit \<open>null\<close> gives all three; the limits -1
  and 2.5 make the query fail.
\<close>

theorem getTransactionsByUser_bounded_ordered_readonly_witness:
  "fst (PgTransactionReadRepositoryAdapter_getTransactionsByUser u1 (LimitNumber (Fin 2))
          sample_ledger) =
     Inr [\<lparr>transaction_id = Generated 2, user_id = u1, amount = Fin 30,
            tx_type = ''withdraw'', timestamp = 9\<rparr>,
          \<lparr>transaction_id = Generated 3, user_id = u1, amount = Fin 10,
            tx_type = ''withdraw'', timestamp = 7\<rparr>] \<and>
   store (snd (PgTransactionReadRepositoryAdapter_getTransactionsByUser u1 (LimitNumber (Fin 2))
          sample_ledger)) = store sample_ledger \<and>
   fst (PgTransactionReadRepositoryAdapter_getTransactionsByUser u1 LimitNull sample_ledger) =
     Inr [\<lparr>transaction_id = Generated 2, user_id = u1, amount = Fin 30,
            tx_type = ''withdraw'', timestamp = 9\<rparr>,
          \<lparr>transaction_id = Generated 3, user_id = u1, amount = Fin 10,
            tx_type = ''withdraw'', timestamp = 7\<rparr>,
          \<lparr>transaction_id = Generated 0, user_id = u1, amount = Fin 100,
            tx_type = ''deposit'', timestamp = 5\<rparr>] \<and>
   fst (PgTransactionReadRepositoryAdapter_getTransactionsByUser u1 (LimitNumber (Fin (- 1)))
          sample_ledger) = Inl (PgError ''LIMIT must not be negative'') \<and>
   fst (PgTransactionReadRepositoryAdapter_getTransactionsByUser u1 (LimitNumber (Fin (5 / 2)))
          sample_ledger) = Inl (PgError ''invalid input syntax for type bigint'') \<and>
   fst (TransactionService_getUserTransactions PostgresRepository JUndefined sample_ledger) =
     Inl (Error ''UserId is required'')"
proof -
  have 1: "fst (PgTransactionReadRepositoryAdapter_getTransactionsByUser u1 (LimitNumber (Fin 2))
          sample_ledger) =
     Inr [\<lparr>transaction_id = Generated 2, user_id = u1, amount = Fin 30,
            tx_type = ''withdraw'', timestamp = 9\<rparr>,
          \<lparr>transaction_id = Generated 3, user_id = u1, amount = Fin 10,
            tx_type = ''withdraw'', timestamp = 7\<rparr>]"
    by code_simp
  have 2: "fst (PgTransactionReadRepositoryAdapter_getTransactionsByUser u1 LimitNull sample_ledger) =
     Inr [\<lparr>transaction_id = Generated 2, user_id = u1, amount = Fin 30,
            tx_type = ''withdraw'', timestamp = 9\<rparr>,
          \<lparr>transaction_id = Generated 3, user_id = u1, amount = Fin 10,
            tx_type = ''withdraw'', timestamp = 7\<rparr>,
          \<lparr>transaction_id = Generated 0, user_id = u1, amount = Fin 100,
            tx_type = ''deposit'', timestamp = 5\<rparr>]"
    by code_simp
  have 3: "fst (PgTransactionReadRepositoryAdapter_getTransactionsByUser u1 (LimitNumber (Fin (- 1)))
          sample_ledger) = Inl (PgError ''LIMIT must not be negative'')"
    by code_simp
  have 4: "fst (PgTransactionReadRepositoryAdapter_getTransactionsByUser u1 (LimitNumber (Fin (5 / 2)))
          sample_ledger) = Inl (PgError ''invalid input syntax for type bigint'')"
    by code_simp
  from getTransactionsByUser_bounded_ordered_readonly
    [where userId = u1 and limit = "LimitNumber (Fin 2)" and w = sample_ledger] 1
  have 5: "store (snd (PgTransactionReadRepositoryAdapter_getTransactionsByUser u1
      (LimitNumber (Fin 2)) sample_ledger)) = store sample_ledger"
    by (cases "PgTransactionReadRepositoryAdapter_getTransactionsByUser u1
      (LimitNumber (Fin 2)) sample_ledger") auto
  from getTransactionsByUser_bounded_ordered_readonly
    [where userId = JUndefined and w = sample_ledger and repository = PostgresRepository]
  have 6: "fst (TransactionService_getUserTransactions PostgresRepository JUndefined sample_ledger) =
     Inl (Error ''UserId is required'')"
    by simp
  from 1 2 3 4 5 6 show ?thesis by (intro conjI)
qed

text \<open>
  Claim C9. When the read does not fail: the derived balance of a non-empty user id
  without recorded transactions is 0, not an error; the maintained balance of a user id
  without a row in \<open>users\<close> is \<open>null\<close>. The two read paths disagree where there is
  no history.
\<close>

theorem no_history_balance_zero_or_null:
  "head_fault w = None \<Longrightarrow>
     (truthy userId \<and> where_user_id userId (transactions (store w)) = [] \<longrightarrow>
        fst (TransactionService_getUserBalance PostgresRepository userId w) = Inr (Fin 0)) \<and>
     (users (store w) userId = None \<longrightarrow>
        fst (PgTransactionReadRepositoryAdapter_getBalanceByUser userId w) = Inr None)"
  by (simp add: TransactionService_getUserBalance_def PostgresRepository_def
      PostgresRepository_getUserBalance_def
      PgTransactionReadRepositoryAdapter_getBalanceByUser_def pool_query_def next_fault_eq
      sql_SUM_def sql_COALESCE_def select_balance_def)

text \<open>A user the empty database does not know: 0 on one path, \<open>null\<close> on the other.\<close>

theorem no_history_balance_zero_or_null_witness:
  "fst (TransactionService_getUserBalance PostgresRepository u1 (empty_ledger [])) = Inr (Fin 0) \<and>
   fst (PgTransactionReadRepositoryAdapter_getBalanceByUser u1 (empty_ledger [])) = Inr None"
  using no_history_balance_zero_or_null [where w = "empty_ledger []" and userId = u1]
  by (simp add: head_fault_def empty_ledger_def u1_def where_user_id_def)

section \<open>The transaction id\<close>

lemma build_tx_fields [simp]:
  "store (snd (CreateTransactionService_build_tx strnum c w)) = store w"
  "txn (snd (CreateTransactionService_build_tx strnum c w)) = txn w"
  "faults (snd (CreateTransactionService_build_tx strnum c w)) = faults w"
  "user_id (fst (CreateTransactionService_build_tx strnum c w)) = c_user_id c"
  "amount (fst (CreateTransactionService_build_tx strnum c w)) = Number strnum (c_amount c)"
  "tx_type (fst (CreateTransactionService_build_tx strnum c w)) = str_of (c_type c)"
  by (simp_all add: CreateTransactionService_build_tx_def uuidv4_def new_Date_def
      split: option.splits)

lemma build_tx_view [simp]:
  "view (snd (CreateTransactionService_build_tx strnum c w)) = view w"
  by (simp add: view_def split: option.splits)

lemma build_tx_supplied_id:
  "truthy (c_transaction_id c) \<Longrightarrow>
     transaction_id (fst (CreateTransactionService_build_tx strnum c w)) =
       Supplied (c_transaction_id c)"
  by (simp add: CreateTransactionService_build_tx_def new_Date_def split: option.splits)

lemma notify_store [simp]:
  "store (snd (CreateTransactionService_notify pub tx w)) = store w"
  "txn (snd (CreateTransactionService_notify pub tx w)) = txn w"
  by (simp_all add: CreateTransactionService_notify_def new_Date_def publish_with_def
      logger_info_def split: prod.splits pub_outcome.splits)

lemma notify_result:
  "fst (CreateTransactionService_notify pub tx w) = Inr tx' \<Longrightarrow> tx' = tx"
  by (auto simp: CreateTransactionService_notify_def new_Date_def publish_with_def
      split: prod.splits pub_outcome.splits)

text \<open>What a successful \<open>execute\<close> on the PostgreSQL write adapter has done.\<close>

lemma execute_Inr:
  assumes "CreateTransactionService_execute strnum
             PgTransactionWriteRepositoryAdapter_saveTransaction pub c w = (Inr tx, w')"
  shows "CreateTransactionService_validate strnum c = None"
    and "tx = fst (CreateTransactionService_build_tx strnum c w)"
    and "store w' = update_balance (user_id tx)
           (\<lambda>b. if tx_type tx = ''deposit'' then num_add b (amount tx)
                 else num_sub b (amount tx))
           (insert_row tx (view w))"
    and "txn w' = None"
proof -
  show v: "CreateTransactionService_validate strnum c = None"
    using assms by (auto simp: CreateTransactionService_execute_def split: option.splits)
  obtain t w1 where b: "CreateTransactionService_build_tx strnum c w = (t, w1)"
    by (cases "CreateTransactionService_build_tx strnum c w")
  obtain r w2 where s: "PgTransactionWriteRepositoryAdapter_saveTransaction t w1 = (r, w2)"
    by (cases "PgTransactionWriteRepositoryAdapter_saveTransaction t w1")
  from assms v b s obtain u where r: "r = Inr u"
    and n: "CreateTransactionService_notify pub t w2 = (Inr tx, w')"
    by (cases r) (auto simp: CreateTransactionService_execute_def)
  from n notify_result [of pub t w2 tx] have t: "tx = t" by simp
  with b show "tx = fst (CreateTransactionService_build_tx strnum c w)" by simp
  from n notify_store [of pub t w2] have 1: "store w' = store w2" "txn w' = txn w2" by simp_all
  from b build_tx_view [of strnum c w] have 2: "view w1 = view w" by simp
  from s r have 3: "store w2 = update_balance (user_id t)
           (\<lambda>b. if tx_type t = ''deposit'' then num_add b (amount t)
                 else num_sub b (amount t))
           (insert_row t (view w1))" and 4: "txn w2 = None"
    by (simp_all add: PgTransactionWriteRepositoryAdapter_saveTransaction_done)
  show "store w' = update_balance (user_id tx)
           (\<lambda>b. if tx_type tx = ''deposit'' then num_add b (amount tx)
                 else num_sub b (amount tx))
           (insert_row tx (view w))"
    unfolding t 1 3 2 ..
  from 1 4 show "txn w' = None" by simp
qed

lemma transactions_update_balance [simp]:
  "transactions (update_balance uid f d) = transactions d"
  by (simp add: update_balance_def split: option.splits)

lemma transactions_insert_row [simp]:
  "transactions (insert_row r d) = transactions d @ [r]"
  by (simp add: insert_row_def)

text \<open>
  A transaction id that is in the committed table, and in the table as the client sees
  it, stays there through every call of the write adapter, whatever its outcome.
\<close>

lemma PgTransactionWriteRepositoryAdapter_saveTransaction_keeps_id:
  assumes "i \<in> set (map transaction_id (transactions (store w)))"
    and "i \<in> set (map transaction_id (transactions (view w)))"
  shows "i \<in> set (map transaction_id (transactions (store
           (snd (PgTransactionWriteRepositoryAdapter_saveTransaction tx w))))) \<and>
         i \<in> set (map transaction_id (transactions (view
           (snd (PgTransactionWriteRepositoryAdapter_saveTransaction tx w)))))"
  using assms
  by (cases "txn w")
    (simp_all add: PgTransactionWriteRepositoryAdapter_saveTransaction_def
      PgTransactionWriteRepositoryAdapter_saveTransaction_try_def client_defs
      insert_row_pk_def split: option.splits)


lemma execute_keeps_id:
  assumes "i \<in> set (map transaction_id (transactions (store w)))"
    and "i \<in> set (map transaction_id (transactions (view w)))"
  shows "i \<in> set (map transaction_id (transactions (store
           (snd (CreateTransactionService_execute strnum
              PgTransactionWriteRepositoryAdapter_saveTransaction pub c w))))) \<and>
         i \<in> set (map transaction_id (transactions (view
           (snd (CreateTransactionService_execute strnum
              PgTransactionWriteRepositoryAdapter_saveTransaction pub c w)))))"
proof (cases "CreateTransactionService_validate strnum c")
  case (Some e)
  with assms show ?thesis
    by (simp add: CreateTransactionService_execute_def)
next
  case None
  obtain t w1 where b: "CreateTransactionService_build_tx strnum c w = (t, w1)"
    by (cases "CreateTransactionService_build_tx strnum c w")
  obtain r w2 where s: "PgTransactionWriteRepositoryAdapter_saveTransaction t w1 = (r, w2)"
    by (cases "PgTransactionWriteRepositoryAdapter_saveTransaction t w1")
  from b build_tx_fields(1) [of strnum c w] build_tx_view [of strnum c w]
  have "store w1 = store w" "view w1 = view w" by simp_all
  with assms PgTransactionWriteRepositoryAdapter_saveTransaction_keeps_id [of i w1 t] s
  have k: "i \<in> set (map transaction_id (transactions (store w2)))"
    "i \<in> set (map transaction_id (transactions (view w2)))"
    by simp_all
  have v: "view (snd (CreateTransactionService_notify pub t w2)) = view w2"
    by (simp add: view_def split: option.splits)
  from None b s k v show ?thesis
    by (cases r) (simp_all add: CreateTransactionService_execute_def)
qed

lemma execute_each_keeps_id:
  assumes "i \<in> set (map transaction_id (transactions (store w)))"
    and "i \<in> set (map transaction_id (transactions (view w)))"
  shows "i \<in> set (map transaction_id (transactions (store (execute_each strnum pub cs w)))) \<and>
         i \<in> set (map transaction_id (transactions (view (execute_each strnum pub cs w))))"
  using assms
proof (induction cs arbitrary: w)
  case Nil
  then show ?case by simp
next
  case (Cons c cs)
  from execute_keeps_id [OF Cons.prems, of strnum pub c] Cons.IH show ?case
    by simp
qed

text \<open>
  A command whose transaction id the client sees in the table already: \<open>execute\<close>
  fails, and the committed data stays as it was.
\<close>

lemma execute_duplicate_id:
  assumes "transaction_id (fst (CreateTransactionService_build_tx strnum c w)) \<in>
             set (map transaction_id (transactions (view w)))"
  shows "\<exists>e. fst (CreateTransactionService_execute strnum
             PgTransactionWriteRepositoryAdapter_saveTransaction pub c w) = Inl e"
    and "store (snd (CreateTransactionService_execute strnum
             PgTransactionWriteRepositoryAdapter_saveTransaction pub c w)) = store w"
proof -
  obtain t w1 where b: "CreateTransactionService_build_tx strnum c w = (t, w1)"
    by (cases "CreateTransactionService_build_tx strnum c w")
  obtain r w2 where s: "PgTransactionWriteRepositoryAdapter_saveTransaction t w1 = (r, w2)"
    by (cases "PgTransactionWriteRepositoryAdapter_saveTransaction t w1")
  from b build_tx_fields(1) [of strnum c w] build_tx_view [of strnum c w]
  have w1: "store w1 = store w" "view w1 = view w" by simp_all
  from assms b w1 have "transaction_id t \<in> set (map transaction_id (transactions (view w1)))"
    by simp
  with s PgTransactionWriteRepositoryAdapter_saveTransaction_done(3) [of t w1 _ w2]
  obtain e where r: "r = Inl e" by (cases r) auto
  from s r PgTransactionWriteRepositoryAdapter_saveTransaction_Inl(1) [of t w1 e w2] w1
  have "store w2 = store w" by simp
  with b s r show "\<exists>e. fst (CreateTransactionService_execute strnum
             PgTransactionWriteRepositoryAdapter_saveTransaction pub c w) = Inl e"
    and "store (snd (CreateTransactionService_execute strnum
             PgTransactionWriteRepositoryAdapter_saveTransaction pub c w)) = store w"
    by (simp_all add: CreateTransactionService_execute_def split: option.splits)
qed

lemma execute_duplicate_id_error:
  assumes "transaction_id (fst (CreateTransactionService_build_tx strnum c w)) \<in>
             set (map transaction_id (transactions (view w)))"
    and "CreateTransactionService_validate strnum c = None" and "faults w = []"
  shows "fst (CreateTransactionService_execute strnum
             PgTransactionWriteRepositoryAdapter_saveTransaction pub c w) =
           Inl (PgError ''duplicate key value violates unique constraint'')"
proof -
  obtain t w1 where b: "CreateTransactionService_build_tx strnum c w = (t, w1)"
    by (cases "CreateTransactionService_build_tx strnum c w")
  from b build_tx_view [of strnum c w] build_tx_fields(3) [of strnum c w] assms(3)
  have w1: "view w1 = view w" "faults w1 = []" by simp_all
  from assms(1) b w1 have "transaction_id t \<in> set (map transaction_id (transactions (view w1)))"
    by simp
  with w1(2) have "fst (PgTransactionWriteRepositoryAdapter_saveTransaction t w1) =
      Inl (PgError ''duplicate key value violates unique constraint'')"
    by (cases "txn w1")
      (simp_all add: PgTransactionWriteRepositoryAdapter_saveTransaction_def
        PgTransactionWriteRepositoryAdapter_saveTransaction_try_def client_eval insert_row_pk_def)
  then obtain w2 where "PgTransactionWriteRepositoryAdapter_saveTransaction t w1 =
      (Inl (PgError ''duplicate key value violates unique constraint''), w2)"
    by (cases "PgTransactionWriteRepositoryAdapter_saveTransaction t w1") simp
  with b assms(2) show ?thesis
    by (simp add: CreateTransactionService_execute_def)
qed

lemma processTransaction_ignores_id:
  "TransactionService_processTransaction PostgresRepository eventPublisher (td\<lparr>td_id := x\<rparr>) w =
   TransactionService_processTransaction PostgresRepository eventPublisher td w"
proof -
  have "PostgresRepository_saveTransaction_try (td\<lparr>td_id := x\<rparr>) =
        PostgresRepository_saveTransaction_try td"
    by (rule ext) (simp add: PostgresRepository_saveTransaction_try_def)
  then have "PostgresRepository_saveTransaction (td\<lparr>td_id := x\<rparr>) =
        PostgresRepository_saveTransaction td"
    by (rule_tac ext) (simp add: PostgresRepository_saveTransaction_def)
  then have "TransactionService_processTransaction_try PostgresRepository eventPublisher
          (td\<lparr>td_id := x\<rparr>) =
        TransactionService_processTransaction_try PostgresRepository eventPublisher td"
    by (rule_tac ext)
      (simp add: TransactionService_processTransaction_try_def PostgresRepository_def
        cong: prod.case_cong sum.case_cong if_cong)
  then show ?thesis
    by (simp add: TransactionService_processTransaction_def)
qed

lemma publish_with_store:
  "publish_with pub ev w = (r, w') \<Longrightarrow> store w' = store w"
  by (auto simp: publish_with_def split: prod.splits)

text \<open>
  A call of \<open>processTransaction\<close> that returns has made one write, on the data the client
  saw at the start of the call, and the store is as that write left it.
\<close>

lemma processTransaction_Inr:
  assumes "TransactionService_processTransaction PostgresRepository eventPublisher td w =
             (Inr saved, w')"
  shows "\<exists>w1 w2. view w1 = view w \<and> idgen w1 = idgen w \<and> clock w1 = clock w \<and>
           PostgresRepository_saveTransaction td w1 = (Inr saved, w2) \<and> store w' = store w2"
proof -
  let ?w0 = "logInfo ''Processing transaction'' w"
  have v0: "view ?w0 = view w" "idgen ?w0 = idgen w" "clock ?w0 = clock w"
    by (simp_all add: logInfo_def)
  from assms have t: "TransactionService_processTransaction_try PostgresRepository eventPublisher
      td ?w0 = (Inr saved, w')"
    by (auto simp: TransactionService_processTransaction_def split: if_splits prod.splits sum.splits)
  define check where "check =
    (if td_type td = JStr ''withdraw'' then
       (case PostgresRepository_getUserBalance (td_userId td) ?w0 of
          (Inl e, w1) \<Rightarrow> (Inl e, w1)
        | (Inr currentBalance, w1) \<Rightarrow>
            if num_gt (num_of (td_amount td)) currentBalance
            then (Inl (Error ''Insufficient balance''),
                  logError ''Insufficient balance for withdrawal'' w1)
            else (Inr (), w1))
     else (Inr (), ?w0))"
  obtain r1 w1 where c: "check = (r1, w1)" by (cases check)
  have v1: "view w1 = view w \<and> idgen w1 = idgen w \<and> clock w1 = clock w"
    using c v0
    by (auto simp: check_def PostgresRepository_getUserBalance_def pool_query_def next_fault_eq
        logError_def split: if_splits option.splits)
  obtain r2 w2 where s: "PostgresRepository_saveTransaction td w1 = (r2, w2)"
    by (cases "PostgresRepository_saveTransaction td w1")
  have "TransactionService_processTransaction_try PostgresRepository eventPublisher td ?w0 =
      (case check of
         (Inl e, w1) \<Rightarrow> (Inl e, w1)
       | (Inr _, w1) \<Rightarrow>
           (case PostgresRepository_saveTransaction td w1 of
              (Inl e, w2) \<Rightarrow> (Inl e, w2)
            | (Inr savedTransaction, w2) \<Rightarrow>
                (case eventPublisher of
                   None \<Rightarrow> (Inr savedTransaction, w2)
                 | Some pub \<Rightarrow>
                     (case publish_with pub
                             (Event ''TRANSACTION_PROCESSED'' savedTransaction None) w2 of
                        (Returned, w3) \<Rightarrow>
                          (Inr savedTransaction, logInfo ''Event published (mock)'' w3)
                      | (Threw e, w3) \<Rightarrow> (Inl e, w3)
                      | (Rejected e, w3) \<Rightarrow> (Inl e, w3)))))"
    by (simp add: TransactionService_processTransaction_try_def Let_def check_def
        PostgresRepository_def cong: prod.case_cong sum.case_cong if_cong)
  with t c s have r: "r1 = Inr () \<and> r2 = Inr saved \<and> store w' = store w2"
    by (cases r1; cases r2; cases eventPublisher)
      (auto split: prod.splits pub_outcome.splits dest: publish_with_store)
  with s v1 show ?thesis by blast
qed




section \<open>Withdrawals and the balance\<close>

text \<open>
  A withdrawal that \<open>PostgresRepository.saveTransaction\<close> accepts leaves a stored
  balance that is not below zero, whatever the balance was.
\<close>

lemma PostgresRepository_withdrawal_not_negative:
  assumes "PostgresRepository_saveTransaction td w = (Inr r, w')"
    and "str_of (td_type td) = ''withdraw''"
  shows "\<exists>b. users (store w') (td_userId td) = Some b \<and> \<not> num_lt b (Fin 0)"
proof -
  from PostgresRepository_saveTransaction_done(1) [OF assms(1)] assms(2)
  obtain b where b: "users (view w) (td_userId td) = Some b"
    and g: "\<not> num_gt (num_of (td_amount td)) b"
    and s: "store w' = update_balance (td_userId td)
              (\<lambda>_. num_sub b (num_of (td_amount td))) (insert_row r (view w))"
    by (auto simp: newBalance_of_def split: if_splits)
  from b s have "users (store w') (td_userId td) = Some (num_sub b (num_of (td_amount td)))"
    by (simp add: update_balance_def insert_row_def)
  moreover from g have "\<not> num_lt (num_sub b (num_of (td_amount td))) (Fin 0)"
    by (cases b; cases "num_of (td_amount td)") simp_all
  ultimately show ?thesis by simp
qed

text \<open>
  Claim C2 fails on the other write path. \<open>PgTransactionWriteRepositoryAdapter\<close> has no
  check of the balance, and neither has \<open>execute\<close>: after a deposit of 100, a
  withdrawal of 150 succeeds and the stored balance is -50.
\<close>

theorem adapter_withdrawal_overdraws:
  "(case execute_all strnum_sample EventPublisherSimulator_publish
           [deposit_cmd (JNum (Fin 100)), withdraw_cmd (JNum (Fin 150))] (empty_ledger [u1]) of
      None \<Rightarrow> False
    | Some w \<Rightarrow>
        fst (PgTransactionReadRepositoryAdapter_getBalanceByUser u1 w) = Inr (Some (Fin (- 50))) \<and>
        num_lt (Fin (- 50)) (Fin 0))"
  by code_simp

section \<open>Balance and history\<close>

lemma num_sub_neg: "num_sub a b = a + num_neg b"
  by (cases a; cases b) (simp_all add: plus_jsnum_def)

lemma history_total_mset:
  assumes "mset rows = mset rows'"
  shows "history_total rows = history_total rows'"
proof -
  have "sum_list (map signed_amount rows) = sum_mset (image_mset signed_amount (mset rows))"
    by (metis mset_map sum_mset_sum_list)
  also have "\<dots> = sum_mset (image_mset signed_amount (mset rows'))"
    using assms by simp
  also have "\<dots> = sum_list (map signed_amount rows')"
    by (metis mset_map sum_mset_sum_list)
  finally show ?thesis by (simp add: history_total_def)
qed

lemma history_total_append [simp]:
  "history_total (rows @ [r]) = history_total rows + signed_amount r"
  by (simp add: history_total_def)

lemma balance_consistent_step:
  assumes "balance_consistent u d"
    and "tx_type tx = ''deposit'' \<or> tx_type tx = ''withdraw''"
  shows "balance_consistent u (update_balance (user_id tx)
           (\<lambda>b. if tx_type tx = ''deposit'' then num_add b (amount tx)
                 else num_sub b (amount tx))
           (insert_row tx d))"
proof (cases "user_id tx = u")
  case True
  with assms show ?thesis
    by (auto simp: balance_consistent_def update_balance_def insert_row_def where_user_id_def
        signed_amount_def num_sub_neg plus_jsnum_def [symmetric])
next
  case False
  with assms show ?thesis
    by (auto simp: balance_consistent_def update_balance_def insert_row_def where_user_id_def
        split: option.splits)
qed

lemma validate_type:
  "CreateTransactionService_validate strnum c = None \<Longrightarrow>
     str_of (c_type c) = ''deposit'' \<or> str_of (c_type c) = ''withdraw''"
  by (auto simp: CreateTransactionService_validate_def split: if_splits)

lemma execute_balance_consistent:
  assumes "CreateTransactionService_execute strnum
             PgTransactionWriteRepositoryAdapter_saveTransaction pub c w = (Inr tx, w')"
    and "balance_consistent u (store w)" and "txn w = None"
  shows "balance_consistent u (store w')" and "txn w' = None"
proof -
  from execute_Inr(1,2) [OF assms(1)] validate_type [of strnum c]
  have "tx_type tx = ''deposit'' \<or> tx_type tx = ''withdraw''" by simp
  moreover from assms(3) have "view w = store w" by (simp add: view_def)
  ultimately show "balance_consistent u (store w')"
    using balance_consistent_step [OF assms(2), of tx] execute_Inr(3) [OF assms(1)]
    by simp
  show "txn w' = None" by (rule execute_Inr(4) [OF assms(1)])
qed

lemma execute_all_balance_consistent:
  assumes "execute_all strnum pub cs w0 = Some w" and "balance_consistent u (store w0)"
    and "txn w0 = None"
  shows "balance_consistent u (store w)"
  using assms
proof (induction cs arbitrary: w0)
  case Nil
  then show ?case by simp
next
  case (Cons c cs)
  obtain r w1 where e: "CreateTransactionService_execute strnum
      PgTransactionWriteRepositoryAdapter_saveTransaction pub c w0 = (r, w1)"
    by (cases "CreateTransactionService_execute strnum
      PgTransactionWriteRepositoryAdapter_saveTransaction pub c w0")
  with Cons.prems(1) obtain tx where r: "r = Inr tx" and rest: "execute_all strnum pub cs w1 = Some w"
    by (cases r) simp_all
  from e r Cons.prems(2,3) have "balance_consistent u (store w1)" "txn w1 = None"
    by (auto intro: execute_balance_consistent)
  with rest show ?case by (auto intro: Cons.IH)
qed

lemma getBalanceByUser_consistent:
  assumes "balance_consistent u (store w)" and "head_fault w = None"
  shows "fst (PgTransactionReadRepositoryAdapter_getBalanceByUser u w) =
           Inr (Some (history_total (where_user_id u (transactions (store w)))))"
  using assms
  by (simp add: PgTransactionReadRepositoryAdapter_getBalanceByUser_def pool_query_def
      next_fault_eq select_balance_def balance_consistent_def)

lemma getTransactionsByUser_all:
  assumes "limit = LimitOmitted \<and> length (where_user_id u (transactions (store w))) \<le> 100 \<or>
           limit = LimitNull \<or>
           (\<exists>k. limit = LimitNumber (Fin (of_nat k)) \<and>
                length (where_user_id u (transactions (store w))) \<le> k \<and> k < 2 ^ 63)"
    and "head_fault w = None"
  shows "fst (PgTransactionReadRepositoryAdapter_getTransactionsByUser u limit w) =
           Inr (order_by_timestamp_desc (where_user_id u (transactions (store w))))"
proof -
  have "(2::rat) ^ 63 = of_nat (2 ^ 63)" by simp
  then have "k < 2 ^ 63 \<Longrightarrow> \<not> (2::rat) ^ 63 \<le> of_nat k" for k :: nat
    by (metis of_nat_less_iff not_le)
  with assms show ?thesis
    by (auto simp: PgTransactionReadRepositoryAdapter_getTransactionsByUser_def pool_query_def
        next_fault_eq order_by_timestamp_desc_def sql_LIMIT_def limit_parameter_def)
qed

lemma derived_balance_is_total:
  assumes "truthy u" and "head_fault w = None"
  shows "fst (TransactionService_getUserTransactions PostgresRepository u w) =
           Inr (order_by_timestamp_desc (where_user_id u (transactions (store w))))"
    and "fst (TransactionService_getUserBalance PostgresRepository u w) =
           Inr (history_total (order_by_timestamp_desc (where_user_id u (transactions (store w)))))"
proof -
  show "fst (TransactionService_getUserTransactions PostgresRepository u w) =
           Inr (order_by_timestamp_desc (where_user_id u (transactions (store w))))"
    using assms
    by (simp add: TransactionService_getUserTransactions_def PostgresRepository_def
        PostgresRepository_getUserTransactions_def pool_query_def next_fault_eq)
  have "sql_COALESCE (sql_SUM (map signed_amount rows)) (Fin 0) = history_total rows" for rows
    by (simp add: sql_COALESCE_def sql_SUM_def history_total_def zero_jsnum_def)
  moreover have "history_total (order_by_timestamp_desc rows) = history_total rows" for rows
    by (rule history_total_mset) simp
  ultimately show "fst (TransactionService_getUserBalance PostgresRepository u w) =
           Inr (history_total (order_by_timestamp_desc (where_user_id u (transactions (store w)))))"
    using assms
    by (simp add: TransactionService_getUserBalance_def PostgresRepository_def
        PostgresRepository_getUserBalance_def pool_query_def next_fault_eq)
qed


text \<open>A run of \<open>n\<close> deposits of 1 for \<open>u1\<close> through \<open>execute\<close>, with no failure injected.\<close>

lemma one_deposit:
  assumes "faults w = []" and "txn w = None" and "users (store w) u1 = Some (Fin b)"
    and "Generated (idgen w) \<notin> set (map transaction_id (transactions (store w)))"
  shows "CreateTransactionService_execute strnum_sample
           PgTransactionWriteRepositoryAdapter_saveTransaction EventPublisherSimulator_publish
           (deposit_cmd (JNum (Fin 1))) w =
         (Inr \<lparr>transaction_id = Generated (idgen w), user_id = u1, amount = Fin 1,
               tx_type = ''deposit'', timestamp = clock w\<rparr>,
          w\<lparr>store := \<lparr>transactions = transactions (store w) @
                 [\<lparr>transaction_id = Generated (idgen w), user_id = u1, amount = Fin 1,
                   tx_type = ''deposit'', timestamp = clock w\<rparr>],
               users = (users (store w))(u1 \<mapsto> Fin (b + 1)),
               balance_column = balance_column (store w)\<rparr>,
            txn := None, clock := Suc (Suc (clock w)), idgen := Suc (idgen w),
            log := log w @ [(''info'', ''event_published''), (''info'', ''transaction_created'')],
            published := published w @
              [Event ''TransactionCreated''
                 \<lparr>transaction_id = Generated (idgen w), user_id = u1, amount = Fin 1,
                   tx_type = ''deposit'', timestamp = clock w\<rparr> (Some (Suc (clock w)))]\<rparr>)"
  using assms
  by (simp add: CreateTransactionService_execute_def CreateTransactionService_validate_def
      CreateTransactionService_build_tx_def CreateTransactionService_notify_def
      uuidv4_def new_Date_def deposit_cmd_def u1_def
      PgTransactionWriteRepositoryAdapter_saveTransaction_def
      PgTransactionWriteRepositoryAdapter_saveTransaction_try_def client_eval
      insert_row_pk_def insert_row_def update_balance_def publish_with_def
      EventPublisherSimulator_publish_def logger_info_def)


lemma deposits:
  assumes "faults w = []" and "txn w = None" and "users (store w) u1 = Some (Fin b)"
    and "\<forall>r \<in> set (transactions (store w)).
           (\<exists>k < idgen w. transaction_id r = Generated k) \<and> user_id r = u1 \<and>
           signed_amount r = Fin 1"
  shows "\<exists>w'. execute_all strnum_sample EventPublisherSimulator_publish
                 (replicate n (deposit_cmd (JNum (Fin 1)))) w = Some w' \<and>
              faults w' = [] \<and>
              users (store w') u1 = Some (Fin (b + of_nat n)) \<and>
              length (transactions (store w')) = length (transactions (store w)) + n \<and>
              (\<forall>r \<in> set (transactions (store w')). user_id r = u1 \<and> signed_amount r = Fin 1)"
  using assms
proof (induction n arbitrary: w b)
  case 0
  then show ?case by simp
next
  case (Suc n)
  let ?tx = "\<lparr>transaction_id = Generated (idgen w), user_id = u1, amount = Fin 1,
               tx_type = ''deposit'', timestamp = clock w\<rparr>"
  let ?w1 = "w\<lparr>store := \<lparr>transactions = transactions (store w) @ [?tx],
               users = (users (store w))(u1 \<mapsto> Fin (b + 1)),
               balance_column = balance_column (store w)\<rparr>,
            txn := None, clock := Suc (Suc (clock w)), idgen := Suc (idgen w),
            log := log w @ [(''info'', ''event_published''), (''info'', ''transaction_created'')],
            published := published w @
              [Event ''TransactionCreated'' ?tx (Some (Suc (clock w)))]\<rparr>"
  from Suc.prems(4) have fresh:
    "Generated (idgen w) \<notin> set (map transaction_id (transactions (store w)))"
    by auto
  note step = one_deposit [OF Suc.prems(1,2,3) fresh]
  have inv: "\<forall>r \<in> set (transactions (store ?w1)).
           (\<exists>k < idgen ?w1. transaction_id r = Generated k) \<and> user_id r = u1 \<and>
           signed_amount r = Fin 1"
    using Suc.prems(4) by (auto simp: signed_amount_def less_Suc_eq)
  have "faults ?w1 = []" using Suc.prems(1) by simp
  moreover have "txn ?w1 = None" by simp
  moreover have "users (store ?w1) u1 = Some (Fin (b + 1))" by simp
  ultimately obtain w' where
    run: "execute_all strnum_sample EventPublisherSimulator_publish
            (replicate n (deposit_cmd (JNum (Fin 1)))) ?w1 = Some w'"
    and res: "faults w' = []" "users (store w') u1 = Some (Fin (b + 1 + of_nat n))"
      "length (transactions (store w')) = length (transactions (store ?w1)) + n"
      "\<forall>r \<in> set (transactions (store w')). user_id r = u1 \<and> signed_amount r = Fin 1"
    using Suc.IH [of ?w1 "b + 1"] inv by blast
  from step run have "execute_all strnum_sample EventPublisherSimulator_publish
      (replicate (Suc n) (deposit_cmd (JNum (Fin 1)))) w = Some w'"
    by simp
  with res show ?case
    by (auto simp: add.assoc add.commute)
qed

lemma history_total_ones:
  assumes "\<forall>r \<in> set rows. signed_amount r = Fin 1"
  shows "history_total rows = Fin (of_nat (length rows))"
  using assms
  by (induction rows) (simp_all add: history_total_def zero_jsnum_def plus_jsnum_def add.commute)

text \<open>
  Claim C1 as stated fails on the \<open>execute\<close> path, whose history read is
  \<open>getTransactionsByUser(userId)\<close> with its default limit of 100: after 101 deposits
  of 1 the balance is 101 and the history returned sums to 100.
\<close>

theorem history_limit_hides_transactions:
  "(case execute_all strnum_sample EventPublisherSimulator_publish
           (replicate 101 (deposit_cmd (JNum (Fin 1)))) (empty_ledger [u1]) of
      None \<Rightarrow> False
    | Some w \<Rightarrow>
        (case fst (PgTransactionReadRepositoryAdapter_getTransactionsByUser u1 LimitOmitted w) of
           Inl e \<Rightarrow> False
         | Inr rows \<Rightarrow>
             fst (PgTransactionReadRepositoryAdapter_getBalanceByUser u1 w) = Inr (Some (Fin 101)) \<and>
             history_total rows = Fin 100))"
proof -
  have "faults (empty_ledger [u1]) = []" "txn (empty_ledger [u1]) = None"
    "users (store (empty_ledger [u1])) u1 = Some (Fin 0)"
    "\<forall>r \<in> set (transactions (store (empty_ledger [u1]))).
           (\<exists>k < idgen (empty_ledger [u1]). transaction_id r = Generated k) \<and> user_id r = u1 \<and>
           signed_amount r = Fin 1"
    by (simp_all add: empty_ledger_def)
  from deposits [OF this, of 101] obtain w where
    run: "execute_all strnum_sample EventPublisherSimulator_publish
            (replicate 101 (deposit_cmd (JNum (Fin 1)))) (empty_ledger [u1]) = Some w"
    and f: "faults w = []" and b: "users (store w) u1 = Some (Fin 101)"
    and l: "length (transactions (store w)) = 101"
    and a: "\<forall>r \<in> set (transactions (store w)). user_id r = u1 \<and> signed_amount r = Fin 1"
    by (auto simp: empty_ledger_def)
  let ?rows = "take 100 (order_by_timestamp_desc (where_user_id u1 (transactions (store w))))"
  from a have all: "where_user_id u1 (transactions (store w)) = transactions (store w)"
    by (simp add: where_user_id_def)
  have rows: "fst (PgTransactionReadRepositoryAdapter_getTransactionsByUser u1 LimitOmitted w) =
      Inr ?rows"
    using f
    by (simp add: PgTransactionReadRepositoryAdapter_getTransactionsByUser_def pool_query_def
        next_fault_def sql_LIMIT_def limit_parameter_def)
  have len: "length ?rows = 100"
    using l by (simp add: all order_by_timestamp_desc_def)
  have "\<forall>r \<in> set ?rows. signed_amount r = Fin 1"
    using a by (auto simp: all dest!: in_set_takeD)
  from history_total_ones [OF this] len have t: "history_total ?rows = Fin 100" by simp
  have bal: "fst (PgTransactionReadRepositoryAdapter_getBalanceByUser u1 w) = Inr (Some (Fin 101))"
    using f b
    by (simp add: PgTransactionReadRepositoryAdapter_getBalanceByUser_def pool_query_def
        next_fault_def select_balance_def)
  from run rows t bal show ?thesis by simp
qed


text \<open>
  Claim C1, amended. On the \<open>processTransaction\<close> path the balance is derived from the
  transactions at every read, so in every state of the store, and so after any sequence
  of calls, \<open>getUserBalance(userId)\<close> is the signed sum over the transactions that
  \<open>getUserTransactions(userId)\<close> returns. On the \<open>execute\<close> path, after a sequence of
  successful calls that starts from a ledger without transactions, with no unit open,
  in which the user has a row with balance 0, \<open>getBalanceByUser(userId)\<close> is the signed sum over all the
  transactions of the user; \<open>getTransactionsByUser(userId, limit)\<close> returns all of
  them, and so a history with that sum, when the limit (100 by default, none when the
  argument is \<open>null\<close>) is not below their number.
\<close>

theorem balance_is_total_of_history:
  "(truthy userId \<and> head_fault w = None \<longrightarrow>
      (\<exists>rows. fst (TransactionService_getUserTransactions PostgresRepository userId w) = Inr rows \<and>
              fst (TransactionService_getUserBalance PostgresRepository userId w) =
                Inr (history_total rows))) \<and>
   (execute_all strnum pub cs w0 = Some w \<and> txn w0 = None \<and>
    transactions (store w0) = [] \<and>
    users (store w0) userId = Some (Fin 0) \<and> head_fault w = None \<longrightarrow>
      fst (PgTransactionReadRepositoryAdapter_getBalanceByUser userId w) =
        Inr (Some (history_total (where_user_id userId (transactions (store w))))) \<and>
      (limit = LimitOmitted \<and> length (where_user_id userId (transactions (store w))) \<le> 100 \<or>
       limit = LimitNull \<or>
       (\<exists>k. limit = LimitNumber (Fin (of_nat k)) \<and>
            length (where_user_id userId (transactions (store w))) \<le> k \<and> k < 2 ^ 63) \<longrightarrow>
         (\<exists>rows. fst (PgTransactionReadRepositoryAdapter_getTransactionsByUser userId limit w) =
                   Inr rows \<and>
                 fst (PgTransactionReadRepositoryAdapter_getBalanceByUser userId w) =
                   Inr (Some (history_total rows)))))"
proof -
  have a: "truthy userId \<and> head_fault w = None \<longrightarrow>
      (\<exists>rows. fst (TransactionService_getUserTransactions PostgresRepository userId w) = Inr rows \<and>
              fst (TransactionService_getUserBalance PostgresRepository userId w) =
                Inr (history_total rows))"
    using derived_balance_is_total by blast
  have b: "execute_all strnum pub cs w0 = Some w \<and> txn w0 = None \<and>
    transactions (store w0) = [] \<and>
    users (store w0) userId = Some (Fin 0) \<and> head_fault w = None \<longrightarrow>
      fst (PgTransactionReadRepositoryAdapter_getBalanceByUser userId w) =
        Inr (Some (history_total (where_user_id userId (transactions (store w))))) \<and>
      (limit = LimitOmitted \<and> length (where_user_id userId (transactions (store w))) \<le> 100 \<or>
       limit = LimitNull \<or>
       (\<exists>k. limit = LimitNumber (Fin (of_nat k)) \<and>
            length (where_user_id userId (transactions (store w))) \<le> k \<and> k < 2 ^ 63) \<longrightarrow>
         (\<exists>rows. fst (PgTransactionReadRepositoryAdapter_getTransactionsByUser userId limit w) =
                   Inr rows \<and>
                 fst (PgTransactionReadRepositoryAdapter_getBalanceByUser userId w) =
                   Inr (Some (history_total rows))))"
  proof (intro impI)
    assume h: "execute_all strnum pub cs w0 = Some w \<and> txn w0 = None \<and>
    transactions (store w0) = [] \<and>
      users (store w0) userId = Some (Fin 0) \<and> head_fault w = None"
    then have "balance_consistent userId (store w0)"
      by (simp add: balance_consistent_def where_user_id_def history_total_def zero_jsnum_def)
    with h have "balance_consistent userId (store w)"
      using execute_all_balance_consistent by blast
    with h have bal: "fst (PgTransactionReadRepositoryAdapter_getBalanceByUser userId w) =
        Inr (Some (history_total (where_user_id userId (transactions (store w)))))"
      by (simp add: getBalanceByUser_consistent)
    have "history_total (order_by_timestamp_desc (where_user_id userId (transactions (store w)))) =
          history_total (where_user_id userId (transactions (store w)))"
      by (rule history_total_mset) simp
    with bal h getTransactionsByUser_all [of limit userId w]
    show "fst (PgTransactionReadRepositoryAdapter_getBalanceByUser userId w) =
        Inr (Some (history_total (where_user_id userId (transactions (store w))))) \<and>
      (limit = LimitOmitted \<and> length (where_user_id userId (transactions (store w))) \<le> 100 \<or>
       limit = LimitNull \<or>
       (\<exists>k. limit = LimitNumber (Fin (of_nat k)) \<and>
            length (where_user_id userId (transactions (store w))) \<le> k \<and> k < 2 ^ 63) \<longrightarrow>
         (\<exists>rows. fst (PgTransactionReadRepositoryAdapter_getTransactionsByUser userId limit w) =
                   Inr rows \<and>
                 fst (PgTransactionReadRepositoryAdapter_getBalanceByUser userId w) =
                   Inr (Some (history_total rows))))"
      by simp
  qed
  from a b show ?thesis by (intro conjI)
qed

text \<open>
  A deposit of 100, then a withdrawal of 40, on either path: the balance is 60, and so
  is the signed sum over the history.
\<close>

theorem balance_is_total_of_history_witness:
  "(case processTransaction_all PostgresRepository (Some EventPublisherMock_publish)
           [deposit_td 100, withdraw_td 40] (empty_ledger [u1]) of
      None \<Rightarrow> False
    | Some w \<Rightarrow>
        fst (TransactionService_getUserBalance PostgresRepository u1 w) = Inr (Fin 60) \<and>
        (\<exists>rows. fst (TransactionService_getUserTransactions PostgresRepository u1 w) = Inr rows \<and>
                history_total rows = Fin 60)) \<and>
   (case execute_all strnum_sample EventPublisherSimulator_publish
           [deposit_cmd (JNum (Fin 100)), withdraw_cmd (JNum (Fin 40))] (empty_ledger [u1]) of
      None \<Rightarrow> False
    | Some w \<Rightarrow>
        fst (PgTransactionReadRepositoryAdapter_getBalanceByUser u1 w) = Inr (Some (Fin 60)) \<and>
        (\<exists>rows. fst (PgTransactionReadRepositoryAdapter_getTransactionsByUser u1 LimitOmitted w) =
                  Inr rows \<and>
                history_total rows = Fin 60))"
proof -
  let ?a = "processTransaction_all PostgresRepository (Some EventPublisherMock_publish)
           [deposit_td 100, withdraw_td 40] (empty_ledger [u1])"
  let ?b = "execute_all strnum_sample EventPublisherSimulator_publish
           [deposit_cmd (JNum (Fin 100)), withdraw_cmd (JNum (Fin 40))] (empty_ledger [u1])"
  define wa where "wa = the ?a"
  define wb where "wb = the ?b"
  have "?a \<noteq> None" by code_simp
  then have ra: "?a = Some wa" by (simp add: wa_def)
  have "?b \<noteq> None" by code_simp
  then have rb: "?b = Some wb" by (simp add: wb_def)
  have fa: "head_fault wa = None" unfolding wa_def by code_simp
  have fb: "head_fault wb = None" unfolding wb_def by code_simp
  have ba: "fst (TransactionService_getUserBalance PostgresRepository u1 wa) = Inr (Fin 60)"
    unfolding wa_def by code_simp
  have bb: "fst (PgTransactionReadRepositoryAdapter_getBalanceByUser u1 wb) =
      Inr (Some (Fin 60))"
    unfolding wb_def by code_simp
  have l: "length (where_user_id u1 (transactions (store wb))) \<le> 100"
    unfolding wb_def by code_simp
  have e: "txn (empty_ledger [u1]) = None" "transactions (store (empty_ledger [u1])) = []"
    "users (store (empty_ledger [u1])) u1 = Some (Fin 0)" "truthy u1"
    by (simp_all add: empty_ledger_def u1_def)
  note t = balance_is_total_of_history
    [where userId = u1 and w = wa, THEN conjunct1]
    balance_is_total_of_history
    [where userId = u1 and w = wb and ?w0.0 = "empty_ledger [u1]" and limit = LimitOmitted
       and strnum = strnum_sample and pub = EventPublisherSimulator_publish
       and cs = "[deposit_cmd (JNum (Fin 100)), withdraw_cmd (JNum (Fin 40))]", THEN conjunct2]
  from t(1) e fa ba have 1: "\<exists>rows.
      fst (TransactionService_getUserTransactions PostgresRepository u1 wa) = Inr rows \<and>
      history_total rows = Fin 60"
    by auto
  from t(2) rb e fb l bb have 2: "\<exists>rows.
      fst (PgTransactionReadRepositoryAdapter_getTransactionsByUser u1 LimitOmitted wb) = Inr rows \<and>
      history_total rows = Fin 60"
    by auto
  show ?thesis
    unfolding ra rb using ba bb 1 2 by simp
qed

section \<open>Two withdrawals at once\<close>

lemmas session_defs =
  sessions_run_def sessions_step_def session_step_def two_calls_def new_session_def
  select_balance_def newBalance_of_def Let_def

text \<open>A call that has ended stays as it is, and changes nothing.\<close>

lemma sessions_step_ended:
  "progress (first s) = Resolved r \<or> progress (first s) = Thrown e \<Longrightarrow>
     sessions_step First s = s"
  "progress (second s) = Resolved r \<or> progress (second s) = Thrown e \<Longrightarrow>
     sessions_step Second s = s"
  by (auto simp: sessions_step_def session_step_def Let_def)

lemma sessions_run_ended:
  "progress (first s) = Resolved r \<or> progress (first s) = Thrown e \<Longrightarrow>
     sessions_run (replicate n First) s = s"
  "progress (second s) = Resolved r \<or> progress (second s) = Thrown e \<Longrightarrow>
     sessions_run (replicate n Second) s = s"
  by (induction n) (simp_all add: sessions_run_def sessions_step_ended)

lemma sessions_run_append:
  "sessions_run (xs @ ys) s = sessions_run ys (sessions_run xs s)"
  by (simp add: sessions_run_def)

text \<open>
  A call that runs alone, from a world with no unit open and no failure injected, ends as
  \<open>PostgresRepository.saveTransaction\<close> does and leaves the same world.
\<close>

lemma session_alone:
  assumes "txn w = None" and "faults w = []"
  shows "progress (first (sessions_run (replicate 5 First) (two_calls td td' w))) =
           (case fst (PostgresRepository_saveTransaction td w) of
              Inr row \<Rightarrow> Resolved row
            | Inl e \<Rightarrow> Thrown e) \<and>
         shared (sessions_run (replicate 5 First) (two_calls td td' w)) =
           snd (PostgresRepository_saveTransaction td w)"
proof -
  have w: "w\<lparr>txn := None\<rparr> = w"
    using assms by simp
  note defs = sessions_run_def sessions_step_def session_step_def two_calls_def new_session_def
      select_balance_def Let_def numeral_eq_Suc PostgresRepository_saveTransaction_def
      PostgresRepository_saveTransaction_try_def client_eval update_balance_to_def
  show ?thesis
  proof (cases "users (store w) (td_userId td)")
    case None
    with assms w show ?thesis
      by (simp add: defs)
  next
    case (Some b)
    show ?thesis
    proof (cases "newBalance_of (balance_column (store w)) (str_of (td_type td)) b
        (num_of (td_amount td))")
      case (Inl e)
      with Some assms w show ?thesis
        by (simp add: defs)
    next
      case (Inr nb)
      show ?thesis
      proof (cases nb)
        case None
        with Inr Some assms show ?thesis
          by (simp add: defs insert_row_def)
      next
        case (Some b')
        with Inr \<open>users (store w) (td_userId td) = Some b\<close> assms show ?thesis
          by (simp add: defs insert_row_def update_balance_def)
      qed
    qed
  qed
qed


text \<open>
  Two withdrawals of the whole balance \<open>b\<close> of a user. When the first call has ended
  before the second one begins, the first returns its row and the second finds the
  balance 0.
\<close>

lemma withdrawals_serial:
  assumes "users (store w) uid = Some (Fin b)" and "0 < b"
    and "td_userId td1 = uid" and "num_of (td_amount td1) = Fin b"
    and "str_of (td_type td1) = ''withdraw''"
    and "td_userId td2 = uid" and "num_of (td_amount td2) = Fin b"
    and "str_of (td_type td2) = ''withdraw''"
    and "5 \<le> m" and "3 \<le> n"
  shows "progress (first (sessions_run (replicate m First @ replicate n Second)
           (two_calls td1 td2 w))) =
           Resolved \<lparr>transaction_id = Generated (idgen w), user_id = uid, amount = Fin b,
                      tx_type = ''withdraw'', timestamp = clock w\<rparr> \<and>
         progress (second (sessions_run (replicate m First @ replicate n Second)
           (two_calls td1 td2 w))) = Thrown (Error ''Insufficient balance'') \<and>
         store (shared (sessions_run (replicate m First @ replicate n Second)
           (two_calls td1 td2 w))) =
           update_balance uid (\<lambda>_. Fin 0)
             (insert_row \<lparr>transaction_id = Generated (idgen w), user_id = uid, amount = Fin b,
                           tx_type = ''withdraw'', timestamp = clock w\<rparr> (store w))"
    and "progress (second (sessions_run (replicate m Second @ replicate n First)
           (two_calls td1 td2 w))) =
           Resolved \<lparr>transaction_id = Generated (idgen w), user_id = uid, amount = Fin b,
                      tx_type = ''withdraw'', timestamp = clock w\<rparr> \<and>
         progress (first (sessions_run (replicate m Second @ replicate n First)
           (two_calls td1 td2 w))) = Thrown (Error ''Insufficient balance'') \<and>
         store (shared (sessions_run (replicate m Second @ replicate n First)
           (two_calls td1 td2 w))) =
           update_balance uid (\<lambda>_. Fin 0)
             (insert_row \<lparr>transaction_id = Generated (idgen w), user_id = uid, amount = Fin b,
                           tx_type = ''withdraw'', timestamp = clock w\<rparr> (store w))"
proof -
  let ?row = "\<lparr>transaction_id = Generated (idgen w), user_id = uid, amount = Fin b,
                 tx_type = ''withdraw'', timestamp = clock w\<rparr>"
  let ?s0 = "two_calls td1 td2 w"
  note defs = session_defs numeral_eq_Suc insert_row_def update_balance_def
  from \<open>5 \<le> m\<close> obtain m' where m: "m = 5 + m'" using le_Suc_ex by blast
  from \<open>3 \<le> n\<close> obtain n' where n: "n = 3 + n'" using le_Suc_ex by blast
  have split: "replicate m x @ replicate n y =
      replicate 5 x @ replicate m' x @ replicate 3 y @ replicate n' y" for x y :: caller
    by (simp add: m n replicate_add)
  let ?a5 = "sessions_run (replicate 5 First) ?s0"
  have a5: "progress (first ?a5) = Resolved ?row"
    using assms(1-8) by (simp add: defs)
  let ?a8 = "sessions_run (replicate 3 Second) ?a5"
  have a8: "progress (first ?a8) = Resolved ?row"
    "progress (second ?a8) = Thrown (Error ''Insufficient balance'')"
    "store (shared ?a8) = update_balance uid (\<lambda>_. Fin 0) (insert_row ?row (store w))"
    using assms(1-8) by (simp_all add: defs)
  have "sessions_run (replicate m First @ replicate n Second) ?s0 = ?a8"
    unfolding split sessions_run_append
    using a5 a8(2) by (simp add: sessions_run_ended)
  with a8 show "progress (first (sessions_run (replicate m First @ replicate n Second) ?s0)) =
           Resolved ?row \<and>
         progress (second (sessions_run (replicate m First @ replicate n Second) ?s0)) =
           Thrown (Error ''Insufficient balance'') \<and>
         store (shared (sessions_run (replicate m First @ replicate n Second) ?s0)) =
           update_balance uid (\<lambda>_. Fin 0) (insert_row ?row (store w))"
    by simp
  let ?b5 = "sessions_run (replicate 5 Second) ?s0"
  have b5: "progress (second ?b5) = Resolved ?row"
    using assms(1-8) by (simp add: defs)
  let ?b8 = "sessions_run (replicate 3 First) ?b5"
  have b8: "progress (second ?b8) = Resolved ?row"
    "progress (first ?b8) = Thrown (Error ''Insufficient balance'')"
    "store (shared ?b8) = update_balance uid (\<lambda>_. Fin 0) (insert_row ?row (store w))"
    using assms(1-8) by (simp_all add: defs)
  have "sessions_run (replicate m Second @ replicate n First) ?s0 = ?b8"
    unfolding split sessions_run_append
    using b5 b8(2) by (simp add: sessions_run_ended)
  with b8 show "progress (second (sessions_run (replicate m Second @ replicate n First) ?s0)) =
           Resolved ?row \<and>
         progress (first (sessions_run (replicate m Second @ replicate n First) ?s0)) =
           Thrown (Error ''Insufficient balance'') \<and>
         store (shared (sessions_run (replicate m Second @ replicate n First) ?s0)) =
           update_balance uid (\<lambda>_. Fin 0) (insert_row ?row (store w))"
    by simp
qed

text \<open>
  When both calls have read the balance before either commits, both find it covers the
  withdrawal, and both return.
\<close>

lemma withdrawals_overlapping:
  assumes "users (store w) uid = Some (Fin b)" and "0 < b"
    and "td_userId td1 = uid" and "num_of (td_amount td1) = Fin b"
    and "str_of (td_type td1) = ''withdraw''"
    and "td_userId td2 = uid" and "num_of (td_amount td2) = Fin b"
    and "str_of (td_type td2) = ''withdraw''"
  shows "progress (first (sessions_run
           [First, First, Second, Second, First, First, First, Second, Second, Second]
           (two_calls td1 td2 w))) =
           Resolved \<lparr>transaction_id = Generated (idgen w), user_id = uid, amount = Fin b,
                      tx_type = ''withdraw'', timestamp = clock w\<rparr> \<and>
         progress (second (sessions_run
           [First, First, Second, Second, First, First, First, Second, Second, Second]
           (two_calls td1 td2 w))) =
           Resolved \<lparr>transaction_id = Generated (Suc (idgen w)), user_id = uid, amount = Fin b,
                      tx_type = ''withdraw'', timestamp = Suc (clock w)\<rparr> \<and>
         store (shared (sessions_run
           [First, First, Second, Second, First, First, First, Second, Second, Second]
           (two_calls td1 td2 w))) =
           update_balance uid (\<lambda>_. Fin 0)
             (insert_row \<lparr>transaction_id = Generated (Suc (idgen w)), user_id = uid,
                           amount = Fin b, tx_type = ''withdraw'', timestamp = Suc (clock w)\<rparr>
                (insert_row \<lparr>transaction_id = Generated (idgen w), user_id = uid,
                              amount = Fin b, tx_type = ''withdraw'', timestamp = clock w\<rparr>
                   (store w)))"
  using assms by (simp add: session_defs insert_row_def update_balance_def)




end
